theory Spec2Isabelle
  imports Main "HOL-Library.Word"
begin

section \<open>Python values\<close>

text \<open>
  The storages of \<^verbatim>\<open>torchrl/data/replay_buffers/storages.py\<close> are Python objects
  that are mutated in place and that raise exceptions. A method is modelled as a function
  from the object's state to an outcome and the state it leaves behind: an exception does
  not undo the writes made before it. An outcome is \<open>Inl e\<close> for a raised exception
  \<open>e\<close> and \<open>Inr v\<close> for a returned value \<open>v\<close>.
\<close>

datatype error =
    RuntimeError | TypeError | ValueError | IndexError | KeyError | AttributeError
  | NotImplementedError | ZeroDivisionError | RecursionError | ZlibError

type_synonym byte = "8 word"

datatype device = CPU | CUDA nat

datatype dtype = UInt8 | Int32 | Int64 | Float32 | Float64

fun itemsize :: "dtype \<Rightarrow> nat" where
  "itemsize UInt8 = 1"
| "itemsize Int32 = 4"
| "itemsize Int64 = 8"
| "itemsize Float32 = 4"
| "itemsize Float64 = 8"

text \<open>\<^verbatim>\<open>torch.Size.numel()\<close>: the product of the sizes.\<close>

definition numel :: "nat list \<Rightarrow> nat" where
  "numel shp = prod_list shp"

text \<open>
  A numpy array and a torch tensor, as far as the storages look at them: shape, element
  type, placement, and the bytes \<^verbatim>\<open>tobytes()\<close> gives.
\<close>

record ndarray =
  ashape :: "nat list"
  adtype :: dtype
  abytes :: "byte list"

record tensor =
  tshape :: "nat list"
  tdtype :: dtype
  tdevice :: device
  tbytes :: "byte list"

definition nbytes :: "ndarray \<Rightarrow> nat" where
  "nbytes a = numel (ashape a) * itemsize (adtype a)"

text \<open>\<^verbatim>\<open>tensor.cpu().numpy()\<close>\<close>

definition numpy :: "tensor \<Rightarrow> ndarray" where
  "numpy t = \<lparr>ashape = tshape t, adtype = tdtype t, abytes = tbytes t\<rparr>"

text \<open>
  The objects a list-backed storage can hold or be handed. \<open>VTensorDict bs fs\<close> is a
  tensordict with batch size \<open>bs\<close> and the items \<open>fs\<close> in key order; \<open>VDict\<close> is a
  plain mapping, \<open>VList\<close> a list or tuple, \<open>VOther\<close> any object that is none of the
  others (a number, say), told apart by the natural number.
\<close>

datatype val =
    VNone
  | VStr string
  | VBytes "byte list"
  | VNdarray ndarray
  | VTensor tensor
  | VTensorDict "nat list" "(string \<times> val) list"
  | VDict "(string \<times> val) list"
  | VList "val list"
  | VOther nat

subsection \<open>Lists, indices and slices\<close>

text \<open>\<^verbatim>\<open>xs[i]\<close>: a negative index counts from the end, an index out of range raises.\<close>

definition py_index :: "'a list \<Rightarrow> int \<Rightarrow> error + 'a" where
  "py_index xs i =
     (let n = int (length xs); j = (if i < 0 then i + n else i)
      in if 0 \<le> j \<and> j < n then Inr (xs ! nat j) else Inl IndexError)"

text \<open>\<^verbatim>\<open>xs[i] = v\<close>\<close>

definition py_setitem :: "'a list \<Rightarrow> int \<Rightarrow> 'a \<Rightarrow> error + 'a list" where
  "py_setitem xs i v =
     (let n = int (length xs); j = (if i < 0 then i + n else i)
      in if 0 \<le> j \<and> j < n then Inr (xs[nat j := v]) else Inl IndexError)"

datatype slice = Slice (start: "int option") (stop: "int option") (step: "int option")

text \<open>\<^verbatim>\<open>slice.indices(length)\<close>\<close>

definition indices :: "slice \<Rightarrow> int \<Rightarrow> error + (int \<times> int \<times> int)" where
  "indices sl n =
     (let st = (case step sl of None \<Rightarrow> 1 | Some s \<Rightarrow> s) in
      if st = 0 then Inl ValueError
      else
        let lower = (if st < 0 then -1 else 0);
            upper = (if st < 0 then n - 1 else n);
            clamp = (\<lambda>v. if v < 0 then max (v + n) lower else min v upper);
            a = (case start sl of None \<Rightarrow> (if st < 0 then upper else lower) | Some v \<Rightarrow> clamp v);
            b = (case stop sl of None \<Rightarrow> (if st < 0 then lower else upper) | Some v \<Rightarrow> clamp v)
        in Inr (a, b, st))"

text \<open>\<^verbatim>\<open>list(range(start, stop, step))\<close> for a step that is not zero.\<close>

definition range_len :: "int \<Rightarrow> int \<Rightarrow> int \<Rightarrow> nat" where
  "range_len a b st =
     (if 0 < st \<and> a < b then nat ((b - a - 1) div st + 1)
      else if st < 0 \<and> b < a then nat ((a - b - 1) div (- st) + 1)
      else 0)"

definition py_range :: "int \<Rightarrow> int \<Rightarrow> int \<Rightarrow> int list" where
  "py_range a b st = map (\<lambda>i. a + int i * st) [0..<range_len a b st]"

text \<open>\<^verbatim>\<open>xs[slice]\<close>: the indices a slice selects are always in range.\<close>

definition py_getslice :: "'a list \<Rightarrow> slice \<Rightarrow> error + 'a list" where
  "py_getslice xs sl =
     (case indices sl (int (length xs)) of
        Inl e \<Rightarrow> Inl e
      | Inr (a, b, st) \<Rightarrow> Inr (map (\<lambda>i. xs ! nat i) (py_range a b st)))"

text \<open>
  \<^verbatim>\<open>xs[slice] = ys\<close>, for a list \<open>ys\<close> of the items assigned. With step 1 the slice is
  replaced by \<open>ys\<close> whatever its length, so the list can grow or shrink; an extended
  slice takes exactly as many items as it selects.
\<close>

definition py_setslice :: "'a list \<Rightarrow> slice \<Rightarrow> 'a list \<Rightarrow> error + 'a list" where
  "py_setslice xs sl ys =
     (case indices sl (int (length xs)) of
        Inl e \<Rightarrow> Inl e
      | Inr (a, b, st) \<Rightarrow>
          if st = 1 then Inr (take (nat a) xs @ ys @ drop (nat (max a b)) xs)
          else if length ys \<noteq> range_len a b st then Inl ValueError
          else Inr (fold (\<lambda>(i, y) acc. acc[nat i := y]) (zip (py_range a b st) ys) xs))"

subsection \<open>Iteration and placement\<close>

text \<open>
  Row \<open>i\<close> of an array or tensor along its first axis, and of a tensordict along its
  first batch axis.
\<close>

definition ndarray_row :: "nat \<Rightarrow> ndarray \<Rightarrow> ndarray" where
  "ndarray_row i a =
     (let k = numel (tl (ashape a)) * itemsize (adtype a)
      in a\<lparr>ashape := tl (ashape a), abytes := take k (drop (i * k) (abytes a))\<rparr>)"

definition tensor_row :: "nat \<Rightarrow> tensor \<Rightarrow> tensor" where
  "tensor_row i t =
     (let k = numel (tl (tshape t)) * itemsize (tdtype t)
      in t\<lparr>tshape := tl (tshape t), tbytes := take k (drop (i * k) (tbytes t))\<rparr>)"

primrec val_row :: "nat \<Rightarrow> val \<Rightarrow> val" where
  "val_row i VNone = VNone"
| "val_row i (VStr s) = VStr s"
| "val_row i (VBytes b) = VBytes b"
| "val_row i (VNdarray a) = VNdarray a"
| "val_row i (VTensor t) = VTensor (tensor_row i t)"
| "val_row i (VTensorDict bs fs) = VTensorDict (tl bs) (map (map_prod id (val_row i)) fs)"
| "val_row i (VDict fs) = VDict fs"
| "val_row i (VList xs) = VList xs"
| "val_row i (VOther n) = VOther n"

text \<open>
  \<^verbatim>\<open>list(data)\<close>: the items that iterating over an object yields. A tensor and a
  tensordict are iterated along their first axis and have none to offer when they have no
  axis; a mapping yields its keys, a string its characters and a bytes object its numbers.
\<close>

fun iterate :: "val \<Rightarrow> error + val list" where
  "iterate (VList xs) = Inr xs"
| "iterate (VTensor t) =
     (case tshape t of [] \<Rightarrow> Inl TypeError
      | n # _ \<Rightarrow> Inr (map (\<lambda>i. VTensor (tensor_row i t)) [0..<n]))"
| "iterate (VTensorDict bs fs) =
     (case bs of [] \<Rightarrow> Inl RuntimeError
      | n # _ \<Rightarrow> Inr (map (\<lambda>i. val_row i (VTensorDict bs fs)) [0..<n]))"
| "iterate (VNdarray a) =
     (case ashape a of [] \<Rightarrow> Inl TypeError
      | n # _ \<Rightarrow> Inr (map (\<lambda>i. VNdarray (ndarray_row i a)) [0..<n]))"
| "iterate (VDict fs) = Inr (map (\<lambda>kv. VStr (fst kv)) fs)"
| "iterate (VBytes b) = Inr (map (\<lambda>w. VOther (unat w)) b)"
| "iterate (VStr s) = Inr (map (\<lambda>c. VStr [c]) s)"
| "iterate v = Inl TypeError"

text \<open>
  \<^verbatim>\<open>x.to(device)\<close> where \<open>x\<close> has such a method, mapped over the leaves of a list or
  mapping otherwise (\<^verbatim>\<open>tree_map\<close>); a tensordict moves every tensor it holds.
\<close>

primrec val_to :: "device \<Rightarrow> val \<Rightarrow> val" where
  "val_to d VNone = VNone"
| "val_to d (VStr s) = VStr s"
| "val_to d (VBytes b) = VBytes b"
| "val_to d (VNdarray a) = VNdarray a"
| "val_to d (VTensor t) = VTensor (t\<lparr>tdevice := d\<rparr>)"
| "val_to d (VTensorDict bs fs) = VTensorDict bs (map (map_prod id (val_to d)) fs)"
| "val_to d (VDict fs) = VDict (map (map_prod id (val_to d)) fs)"
| "val_to d (VList xs) = VList (map (val_to d) xs)"
| "val_to d (VOther n) = VOther n"

section \<open>Storage and ListStorage\<close>

record Storage =
  max_size :: int

text \<open>\<^verbatim>\<open>ListStorage\<close>: \<open>storage\<close> is the attribute \<^verbatim>\<open>_storage\<close>.\<close>

record ListStorage = Storage +
  device :: "device option"
  storage :: "val list"

text \<open>\<^verbatim>\<open>ListStorage.__init__\<close>\<close>

definition ListStorage_new :: "int \<Rightarrow> device option \<Rightarrow> ListStorage" where
  "ListStorage_new max_size' device' =
     \<lparr>max_size = max_size', device = device', storage = []\<rparr>"

definition to_device :: "'z ListStorage_scheme \<Rightarrow> val \<Rightarrow> val" where
  "to_device self data' = (case device self of None \<Rightarrow> data' | Some d \<Rightarrow> val_to d data')"

text \<open>
  A cursor is an integer (a zero-dimensional tensor or array is converted to one), a slice,
  or any other sequence of cursors. An index read by \<^verbatim>\<open>get\<close> can also be a tuple.
\<close>

datatype cursor = CInt int | CSlice slice | CSeq "cursor list"

datatype index = IInt int | ISlice slice | ITuple "index list" | IList "int list"

text \<open>
  The methods a subclass overrides (\<^verbatim>\<open>_set_item\<close>, \<^verbatim>\<open>_set_slice\<close>, \<^verbatim>\<open>_get_item\<close>,
  \<^verbatim>\<open>_get_slice\<close>, \<^verbatim>\<open>_get_list\<close>, \<^verbatim>\<open>__len__\<close>) are looked up in the object's class;
  \<^verbatim>\<open>set\<close> and \<^verbatim>\<open>get\<close> below take the class as their first argument.
\<close>

record 's methods =
  set_item :: "int \<Rightarrow> val \<Rightarrow> 's \<Rightarrow> error option \<times> 's"
  set_slice :: "slice \<Rightarrow> val \<Rightarrow> 's \<Rightarrow> error option \<times> 's"
  get_item :: "'s \<Rightarrow> int \<Rightarrow> error + val"
  get_slice :: "'s \<Rightarrow> slice \<Rightarrow> error + val"
  get_list :: "'s \<Rightarrow> int list \<Rightarrow> error + val"
  len :: "'s \<Rightarrow> nat"

text \<open>The data classes a sequence cursor accepts (\<^verbatim>\<open>isinstance(data, (list, tuple, ...))\<close>).\<close>

fun accepted :: "val \<Rightarrow> bool" where
  "accepted (VList xs) = True"
| "accepted (VTensor t) = True"
| "accepted (VTensorDict bs fs) = True"
| "accepted (VNdarray a) = True"
| "accepted v = False"

text \<open>
  \<^verbatim>\<open>ListStorage.set\<close>. The argument \<^verbatim>\<open>set_cursor\<close> is passed on to the recursive
  calls and read nowhere. \<open>set_zip\<close> is the loop over \<^verbatim>\<open>_zip_strict(cursor, data)\<close>:
  the pairs are written one after the other, and a sequence that ends before the other
  raises once the common part is written.
\<close>

fun ListStorage_set ::
    "'z ListStorage_scheme methods \<Rightarrow> cursor \<Rightarrow> val \<Rightarrow> bool \<Rightarrow> 'z ListStorage_scheme
      \<Rightarrow> error option \<times> 'z ListStorage_scheme"
  and set_zip ::
    "'z ListStorage_scheme methods \<Rightarrow> cursor list \<Rightarrow> val list \<Rightarrow> bool \<Rightarrow> 'z ListStorage_scheme
      \<Rightarrow> error option \<times> 'z ListStorage_scheme"
where
  "ListStorage_set cls (CInt c) data' set_cursor self =
     (if c > int (length (storage self)) then (Some RuntimeError, self)
      else if c \<ge> max_size self then (Some RuntimeError, self)
      else set_item cls c (to_device self data') self)"
| "ListStorage_set cls (CSlice sl) data' set_cursor self =
     set_slice cls sl (to_device self data') self"
| "ListStorage_set cls (CSeq cs) data' set_cursor self =
     (if accepted data' then
        (case iterate data' of
           Inl e \<Rightarrow> (Some e, self)
         | Inr ds \<Rightarrow> set_zip cls cs ds set_cursor self)
      else (Some TypeError, self))"
| "set_zip cls [] [] set_cursor self = (None, self)"
| "set_zip cls [] (d # ds) set_cursor self = (Some ValueError, self)"
| "set_zip cls (c # cs) [] set_cursor self = (Some ValueError, self)"
| "set_zip cls (c # cs) (d # ds) set_cursor self =
     (case ListStorage_set cls c d set_cursor self of
        (None, self') \<Rightarrow> set_zip cls cs ds set_cursor self'
      | (Some e, self') \<Rightarrow> (Some e, self'))"

definition ListStorage_set_item ::
    "int \<Rightarrow> val \<Rightarrow> 'z ListStorage_scheme \<Rightarrow> error option \<times> 'z ListStorage_scheme" where
  "ListStorage_set_item c data' self =
     (if c = int (length (storage self)) then (None, self\<lparr>storage := storage self @ [data']\<rparr>)
      else (case py_setitem (storage self) c data' of
              Inl e \<Rightarrow> (Some e, self)
            | Inr xs \<Rightarrow> (None, self\<lparr>storage := xs\<rparr>)))"

definition ListStorage_set_slice ::
    "slice \<Rightarrow> val \<Rightarrow> 'z ListStorage_scheme \<Rightarrow> error option \<times> 'z ListStorage_scheme" where
  "ListStorage_set_slice sl data' self =
     (case iterate data' of
        Inl e \<Rightarrow> (Some e, self)
      | Inr ys \<Rightarrow>
          (case py_setslice (storage self) sl ys of
             Inl e \<Rightarrow> (Some e, self)
           | Inr xs \<Rightarrow> (None, self\<lparr>storage := xs\<rparr>)))"

text \<open>
  \<^verbatim>\<open>ListStorage.get\<close>. A tuple with more than one element is refused, a tuple with one
  element is read through \<^verbatim>\<open>self.get(index[0])\<close>, and \<^verbatim>\<open>index[0]\<close> of the empty
  tuple raises.
\<close>

fun ListStorage_get :: "'s methods \<Rightarrow> 's \<Rightarrow> index \<Rightarrow> error + val" where
  "ListStorage_get cls self (IInt i) = get_item cls self i"
| "ListStorage_get cls self (ISlice sl) = get_slice cls self sl"
| "ListStorage_get cls self (ITuple (i # j # rest)) = Inl RuntimeError"
| "ListStorage_get cls self (ITuple [i]) = ListStorage_get cls self i"
| "ListStorage_get cls self (ITuple []) = Inl IndexError"
| "ListStorage_get cls self (IList l) = get_list cls self l"

definition ListStorage_get_item :: "'z ListStorage_scheme \<Rightarrow> int \<Rightarrow> error + val" where
  "ListStorage_get_item self i = py_index (storage self) i"

definition ListStorage_get_slice :: "'z ListStorage_scheme \<Rightarrow> slice \<Rightarrow> error + val" where
  "ListStorage_get_slice self sl =
     (case py_getslice (storage self) sl of Inl e \<Rightarrow> Inl e | Inr xs \<Rightarrow> Inr (VList xs))"

text \<open>\<^verbatim>\<open>[self._storage[i] for i in index]\<close>: the first index out of range raises.\<close>

fun collect :: "(int \<Rightarrow> error + val) \<Rightarrow> int list \<Rightarrow> error + val list" where
  "collect f [] = Inr []"
| "collect f (i # is) =
     (case f i of
        Inl e \<Rightarrow> Inl e
      | Inr v \<Rightarrow> (case collect f is of Inl e \<Rightarrow> Inl e | Inr vs \<Rightarrow> Inr (v # vs)))"

definition ListStorage_get_list :: "'z ListStorage_scheme \<Rightarrow> int list \<Rightarrow> error + val" where
  "ListStorage_get_list self l =
     (case collect (py_index (storage self)) l of Inl e \<Rightarrow> Inl e | Inr vs \<Rightarrow> Inr (VList vs))"

definition ListStorage_len :: "'z ListStorage_scheme \<Rightarrow> nat" where
  "ListStorage_len self = length (storage self)"

definition ListStorage_class :: "'z ListStorage_scheme methods" where
  "ListStorage_class =
     \<lparr>set_item = ListStorage_set_item, set_slice = ListStorage_set_slice,
      get_item = ListStorage_get_item, get_slice = ListStorage_get_slice,
      get_list = ListStorage_get_list, len = ListStorage_len\<rparr>"

text \<open>\<^verbatim>\<open>Storage.__setitem__\<close>: \<^verbatim>\<open>self.set(index, value, set_cursor=False)\<close>.\<close>

definition ListStorage_setitem ::
    "'z ListStorage_scheme methods \<Rightarrow> cursor \<Rightarrow> val \<Rightarrow> 'z ListStorage_scheme
      \<Rightarrow> error option \<times> 'z ListStorage_scheme" where
  "ListStorage_setitem cls idx v self = ListStorage_set cls idx v False self"

section \<open>LazyStackStorage\<close>

record LazyStackStorage = ListStorage +
  stack_dim :: int

text \<open>
  What \<^verbatim>\<open>LazyStackStorage.get\<close> returns: the object \<^verbatim>\<open>ListStorage.get\<close> found, or
  the lazy stack \<^verbatim>\<open>lazy_stack(list(out), stack_dim)\<close> of tensordict, which is kept as
  its two arguments.
\<close>

datatype stacked = Plain val | LazyStacked int "val list"

text \<open>\<^verbatim>\<open>x.ndim\<close>\<close>

fun val_ndim :: "val \<Rightarrow> error + nat" where
  "val_ndim (VTensor t) = Inr (length (tshape t))"
| "val_ndim (VNdarray a) = Inr (length (ashape a))"
| "val_ndim (VTensorDict bs fs) = Inr (length bs)"
| "val_ndim v = Inl AttributeError"

definition stack_out :: "'z LazyStackStorage_scheme \<Rightarrow> error + stacked \<Rightarrow> error + stacked" where
  "stack_out self r =
     (case r of
        Inr (Plain (VList out)) \<Rightarrow>
          if stack_dim self < 0 then
            (case out of
               [] \<Rightarrow> Inl IndexError
             | x # _ \<Rightarrow>
                 (case val_ndim x of
                    Inl e \<Rightarrow> Inl e
                  | Inr n \<Rightarrow> Inr (LazyStacked (int n + 1 + stack_dim self) out)))
          else Inr (LazyStacked (stack_dim self) out)
      | _ \<Rightarrow> r)"

text \<open>
  \<^verbatim>\<open>LazyStackStorage.get\<close>: \<^verbatim>\<open>super().get(index)\<close>, then the stacking of a list
  result. The call \<^verbatim>\<open>self.get(index[0])\<close> inside \<^verbatim>\<open>ListStorage.get\<close> is bound to
  the object's own class, hence to this method again.
\<close>

fun LazyStackStorage_get :: "'z LazyStackStorage_scheme \<Rightarrow> index \<Rightarrow> error + stacked" where
  "LazyStackStorage_get self (IInt i) =
     stack_out self (map_sum id Plain (ListStorage_get_item self i))"
| "LazyStackStorage_get self (ISlice sl) =
     stack_out self (map_sum id Plain (ListStorage_get_slice self sl))"
| "LazyStackStorage_get self (ITuple (i # j # rest)) = Inl RuntimeError"
| "LazyStackStorage_get self (ITuple [i]) = stack_out self (LazyStackStorage_get self i)"
| "LazyStackStorage_get self (ITuple []) = Inl IndexError"
| "LazyStackStorage_get self (IList l) =
     stack_out self (map_sum id Plain (ListStorage_get_list self l))"

section \<open>CompressedListStorage\<close>

text \<open>
  The metadata kept beside each compressed entry: the dictionaries
  \<^verbatim>\<open>{"type": "tensor", "shape", "dtype", "device"}\<close>,
  \<^verbatim>\<open>{"type": "tensordict", "fields"}\<close>, \<^verbatim>\<open>{"type": "non_tensor", "value"}\<close> and
  \<^verbatim>\<open>{"type": "other", "value"}\<close>.
\<close>

record tensor_meta =
  m_shape :: "nat list"
  m_dtype :: dtype
  m_device :: device

datatype field_meta = FTensor tensor_meta | FNonTensor val

datatype meta = MTensor tensor_meta | MTensorDict "(string \<times> field_meta) list" | MOther val

text \<open>\<open>metadata\<close> is \<^verbatim>\<open>_metadata\<close>; its \<open>None\<close> entries are the placeholders.\<close>

record CompressedListStorage = ListStorage +
  compression_level :: int
  compression_fn :: "tensor \<Rightarrow> error + val"
  decompression_fn :: "val \<Rightarrow> tensor_meta \<Rightarrow> error + val"
  metadata :: "meta option list"

text \<open>
  \<^verbatim>\<open>to_bytestream\<close>. Its second test is \<^verbatim>\<open>isinstance(data, np.array)\<close>, and
  \<^verbatim>\<open>np.array\<close> is a function: for anything but a tensor the test itself raises.
\<close>

fun to_bytestream :: "val \<Rightarrow> error + byte list" where
  "to_bytestream (VTensor t) = Inr (tbytes t)"
| "to_bytestream v = Inl TypeError"

text \<open>
  \<^verbatim>\<open>torch.frombuffer(bytearray(bs), dtype=dt)\<close> refuses an empty buffer and one whose
  length is no multiple of the element size; \<^verbatim>\<open>tensor.reshape(shape)\<close> refuses a
  shape of another size.
\<close>

definition frombuffer :: "byte list \<Rightarrow> dtype \<Rightarrow> error + tensor" where
  "frombuffer bs dt =
     (if bs = [] then Inl ValueError
      else if length bs mod itemsize dt \<noteq> 0 then Inl ValueError
      else Inr \<lparr>tshape = [length bs div itemsize dt], tdtype = dt, tdevice = CPU, tbytes = bs\<rparr>)"

definition reshape :: "tensor \<Rightarrow> nat list \<Rightarrow> error + tensor" where
  "reshape t shp =
     (if numel shp = numel (tshape t) then Inr (t\<lparr>tshape := shp\<rparr>) else Inl RuntimeError)"

text \<open>
  The default compression pair. The compressor and decompressor of the Python library
  (\<^verbatim>\<open>zlib.compress\<close>, \<^verbatim>\<open>zlib.decompress\<close>, or those of \<^verbatim>\<open>zstd\<close>) are the
  parameters \<open>compressor_fn\<close>, which takes the level first, and \<open>decompressor_fn\<close>.
\<close>

definition default_compression_fn ::
    "(int \<Rightarrow> byte list \<Rightarrow> byte list) \<Rightarrow> int \<Rightarrow> tensor \<Rightarrow> error + val" where
  "default_compression_fn compressor_fn level t =
     (case to_bytestream (VTensor t) of
        Inl e \<Rightarrow> Inl e
      | Inr tensor_bytes \<Rightarrow>
          (case frombuffer (compressor_fn level tensor_bytes) UInt8 of
             Inl e \<Rightarrow> Inl e
           | Inr c \<Rightarrow> Inr (VTensor c)))"

definition default_decompression_fn ::
    "(byte list \<Rightarrow> error + byte list) \<Rightarrow> val \<Rightarrow> tensor_meta \<Rightarrow> error + val" where
  "default_decompression_fn decompressor_fn compressed_tensor md =
     (case compressed_tensor of
        VTensor c \<Rightarrow>
          (case to_bytestream (VTensor (c\<lparr>tdevice := CPU\<rparr>)) of
             Inl e \<Rightarrow> Inl e
           | Inr compressed_bytes \<Rightarrow>
               (case decompressor_fn compressed_bytes of
                  Inl e \<Rightarrow> Inl e
                | Inr decompressed_bytes \<Rightarrow>
                    (case frombuffer decompressed_bytes (m_dtype md) of
                       Inl e \<Rightarrow> Inl e
                     | Inr t \<Rightarrow>
                         (case reshape t (m_shape md) of
                            Inl e \<Rightarrow> Inl e
                          | Inr t' \<Rightarrow> Inr (VTensor (t'\<lparr>tdevice := m_device md\<rparr>))))))
      | _ \<Rightarrow> Inl AttributeError)"

text \<open>\<^verbatim>\<open>CompressedListStorage.__init__\<close> with no compression functions given.\<close>

definition CompressedListStorage_new ::
    "(int \<Rightarrow> byte list \<Rightarrow> byte list) \<Rightarrow> (byte list \<Rightarrow> error + byte list) \<Rightarrow> int \<Rightarrow> int
      \<Rightarrow> device option \<Rightarrow> CompressedListStorage" where
  "CompressedListStorage_new compressor_fn decompressor_fn max_size' level device' =
     \<lparr>max_size = max_size', device = device', storage = [],
      compression_level = level,
      compression_fn = default_compression_fn compressor_fn level,
      decompression_fn = default_decompression_fn decompressor_fn,
      metadata = []\<rparr>"

definition meta_of :: "tensor \<Rightarrow> tensor_meta" where
  "meta_of t = \<lparr>m_shape = tshape t, m_dtype = tdtype t, m_device = tdevice t\<rparr>"

text \<open>The loop of \<^verbatim>\<open>_compress_item\<close> over \<^verbatim>\<open>item.items()\<close>.\<close>

fun compress_fields ::
    "(tensor \<Rightarrow> error + val) \<Rightarrow> (string \<times> val) list
      \<Rightarrow> error + ((string \<times> val) list \<times> (string \<times> field_meta) list)" where
  "compress_fields cfn [] = Inr ([], [])"
| "compress_fields cfn ((key, v) # rest) =
     (case (case v of
              VTensor t \<Rightarrow> (case cfn t of Inl e \<Rightarrow> Inl e | Inr c \<Rightarrow> Inr (c, FTensor (meta_of t)))
            | _ \<Rightarrow> Inr (v, FNonTensor v)) of
        Inl e \<Rightarrow> Inl e
      | Inr (c, fm) \<Rightarrow>
          (case compress_fields cfn rest of
             Inl e \<Rightarrow> Inl e
           | Inr (cs, fms) \<Rightarrow> Inr ((key, c) # cs, (key, fm) # fms)))"

definition compress_item :: "'z CompressedListStorage_scheme \<Rightarrow> val \<Rightarrow> error + (val \<times> meta)" where
  "compress_item self item =
     (case item of
        VTensor t \<Rightarrow>
          (case compression_fn self t of
             Inl e \<Rightarrow> Inl e
           | Inr c \<Rightarrow> Inr (c, MTensor (meta_of t)))
      | VTensorDict bs fs \<Rightarrow>
          (case compress_fields (compression_fn self) fs of
             Inl e \<Rightarrow> Inl e
           | Inr (cs, fms) \<Rightarrow> Inr (VDict cs, MTensorDict fms))
      | _ \<Rightarrow> Inr (item, MOther item))"

text \<open>\<^verbatim>\<open>compressed_data[key]\<close>\<close>

fun getkey :: "val \<Rightarrow> string \<Rightarrow> error + val" where
  "getkey (VDict fs) key = (case map_of fs key of None \<Rightarrow> Inl KeyError | Some v \<Rightarrow> Inr v)"
| "getkey (VTensorDict bs fs) key = (case map_of fs key of None \<Rightarrow> Inl KeyError | Some v \<Rightarrow> Inr v)"
| "getkey v key = Inl TypeError"

text \<open>The loop of \<^verbatim>\<open>_decompress_item\<close> over \<^verbatim>\<open>metadata["fields"].items()\<close>.\<close>

fun decompress_fields ::
    "(val \<Rightarrow> tensor_meta \<Rightarrow> error + val) \<Rightarrow> val \<Rightarrow> (string \<times> field_meta) list
      \<Rightarrow> error + (string \<times> val) list" where
  "decompress_fields dfn compressed_data [] = Inr []"
| "decompress_fields dfn compressed_data ((key, fm) # rest) =
     (case (case fm of
              FNonTensor v \<Rightarrow> Inr v
            | FTensor tm \<Rightarrow>
                (case getkey compressed_data key of
                   Inl e \<Rightarrow> Inl e
                 | Inr c \<Rightarrow> dfn c tm)) of
        Inl e \<Rightarrow> Inl e
      | Inr v \<Rightarrow>
          (case decompress_fields dfn compressed_data rest of
             Inl e \<Rightarrow> Inl e
           | Inr vs \<Rightarrow> Inr ((key, v) # vs)))"

text \<open>
  \<^verbatim>\<open>_decompress_item\<close>. The tensordict is rebuilt with
  \<^verbatim>\<open>batch_size=metadata.get("batch_size", [])\<close>, and \<^verbatim>\<open>_compress_item\<close> stores no
  such key: the batch size is always empty.
\<close>

definition decompress_item ::
    "'z CompressedListStorage_scheme \<Rightarrow> val \<Rightarrow> meta option \<Rightarrow> error + val" where
  "decompress_item self compressed_data md =
     (case md of
        None \<Rightarrow> Inl TypeError
      | Some (MTensor tm) \<Rightarrow> decompression_fn self compressed_data tm
      | Some (MTensorDict fms) \<Rightarrow>
          (case decompress_fields (decompression_fn self) compressed_data fms of
             Inl e \<Rightarrow> Inl e
           | Inr fs \<Rightarrow> Inr (VTensorDict [] fs))
      | Some (MOther v) \<Rightarrow> Inr v)"

text \<open>
  \<^verbatim>\<open>CompressedListStorage._set_item\<close>: the two lists are extended with \<open>None\<close> while
  \<^verbatim>\<open>len(self._storage) <= cursor\<close>, then the entry and its metadata are written.
\<close>

definition CompressedListStorage_set_item ::
    "int \<Rightarrow> val \<Rightarrow> 'z CompressedListStorage_scheme
      \<Rightarrow> error option \<times> 'z CompressedListStorage_scheme" where
  "CompressedListStorage_set_item c data' self =
     (let k = nat (c + 1 - int (length (storage self)));
          self1 = self\<lparr>storage := storage self @ replicate k VNone,
                       metadata := metadata self @ replicate k None\<rparr>
      in case compress_item self1 data' of
           Inl e \<Rightarrow> (Some e, self1)
         | Inr (compressed_data, md) \<Rightarrow>
             (case py_setitem (storage self1) c compressed_data of
                Inl e \<Rightarrow> (Some e, self1)
              | Inr xs \<Rightarrow>
                  (case py_setitem (metadata self1) c (Some md) of
                     Inl e \<Rightarrow> (Some e, self1\<lparr>storage := xs\<rparr>)
                   | Inr ms \<Rightarrow> (None, self1\<lparr>storage := xs, metadata := ms\<rparr>))))"

text \<open>\<^verbatim>\<open>hasattr(data, "__iter__")\<close>\<close>

fun has_iter :: "val \<Rightarrow> bool" where
  "has_iter VNone = False"
| "has_iter (VOther n) = False"
| "has_iter v = True"

text \<open>The loop \<^verbatim>\<open>for i, value in zip(indices, data): self._set_item(i, value)\<close>.\<close>

fun set_items ::
    "(int \<Rightarrow> val \<Rightarrow> 's \<Rightarrow> error option \<times> 's) \<Rightarrow> (int \<times> val) list \<Rightarrow> 's \<Rightarrow> error option \<times> 's" where
  "set_items f [] self = (None, self)"
| "set_items f ((i, v) # rest) self =
     (case f i v self of
        (None, self') \<Rightarrow> set_items f rest self'
      | (Some e, self') \<Rightarrow> (Some e, self'))"

definition CompressedListStorage_set_slice ::
    "slice \<Rightarrow> val \<Rightarrow> 'z CompressedListStorage_scheme
      \<Rightarrow> error option \<times> 'z CompressedListStorage_scheme" where
  "CompressedListStorage_set_slice sl data' self =
     (let data1 = (if has_iter data' then data' else VList [data']) in
      case indices sl (int (length (storage self))) of
        Inl e \<Rightarrow> (Some e, self)
      | Inr (a, b, st) \<Rightarrow>
          (case iterate data1 of
             Inl e \<Rightarrow> (Some e, self)
           | Inr ds \<Rightarrow> set_items CompressedListStorage_set_item (zip (py_range a b st) ds) self))"

definition CompressedListStorage_get_item ::
    "'z CompressedListStorage_scheme \<Rightarrow> int \<Rightarrow> error + val" where
  "CompressedListStorage_get_item self i =
     (if i \<ge> int (length (storage self)) then Inl IndexError
      else
        (case py_index (storage self) i of
           Inl e \<Rightarrow> Inl e
         | Inr VNone \<Rightarrow> Inl IndexError
         | Inr compressed_data \<Rightarrow>
             (case py_index (metadata self) i of
                Inl e \<Rightarrow> Inl e
              | Inr md \<Rightarrow> decompress_item self compressed_data md)))"

text \<open>
  \<^verbatim>\<open>_get_slice\<close> skips the empty slots of the slice; \<^verbatim>\<open>_get_list\<close> raises at the
  first one.
\<close>

fun collect_set :: "'z CompressedListStorage_scheme \<Rightarrow> int list \<Rightarrow> error + val list" where
  "collect_set self [] = Inr []"
| "collect_set self (i # is) =
     (if i < int (length (storage self)) \<and> py_index (storage self) i \<noteq> Inr VNone then
        (case CompressedListStorage_get_item self i of
           Inl e \<Rightarrow> Inl e
         | Inr v \<Rightarrow> (case collect_set self is of Inl e \<Rightarrow> Inl e | Inr vs \<Rightarrow> Inr (v # vs)))
      else collect_set self is)"

definition CompressedListStorage_get_slice ::
    "'z CompressedListStorage_scheme \<Rightarrow> slice \<Rightarrow> error + val" where
  "CompressedListStorage_get_slice self sl =
     (case indices sl (int (length (storage self))) of
        Inl e \<Rightarrow> Inl e
      | Inr (a, b, st) \<Rightarrow>
          (case collect_set self (py_range a b st) of
             Inl e \<Rightarrow> Inl e
           | Inr vs \<Rightarrow> Inr (VList vs)))"

definition CompressedListStorage_get_list ::
    "'z CompressedListStorage_scheme \<Rightarrow> int list \<Rightarrow> error + val" where
  "CompressedListStorage_get_list self l =
     (case collect (CompressedListStorage_get_item self) l of
        Inl e \<Rightarrow> Inl e
      | Inr vs \<Rightarrow> Inr (VList vs))"

text \<open>\<^verbatim>\<open>__len__\<close>: the entries that are not \<open>None\<close>.\<close>

definition CompressedListStorage_len :: "'z CompressedListStorage_scheme \<Rightarrow> nat" where
  "CompressedListStorage_len self = length (filter (\<lambda>item. item \<noteq> VNone) (storage self))"

definition CompressedListStorage_class :: "'z CompressedListStorage_scheme methods" where
  "CompressedListStorage_class =
     \<lparr>set_item = CompressedListStorage_set_item, set_slice = CompressedListStorage_set_slice,
      get_item = CompressedListStorage_get_item, get_slice = CompressedListStorage_get_slice,
      get_list = CompressedListStorage_get_list, len = CompressedListStorage_len\<rparr>"

text \<open>
  \<^verbatim>\<open>CompressedListStorage.bytes\<close> and its local function. A \<^verbatim>\<open>str\<close> is a
  \<^verbatim>\<open>Sequence\<close> whose items are strings of one character, each again a
  \<^verbatim>\<open>Sequence\<close> with itself as its item: on a string that is not empty the recursion
  never ends and Python raises \<^verbatim>\<open>RecursionError\<close>. \<open>sum_sizes\<close> is \<^verbatim>\<open>sum(...)\<close>
  over the generator, which stops at the first exception.
\<close>

fun sum_sizes :: "(error + nat) list \<Rightarrow> error + nat" where
  "sum_sizes [] = Inr 0"
| "sum_sizes (r # rs) =
     (case r of
        Inl e \<Rightarrow> Inl e
      | Inr n \<Rightarrow> (case sum_sizes rs of Inl e \<Rightarrow> Inl e | Inr m \<Rightarrow> Inr (n + m)))"

primrec compressed_size_from_list :: "val \<Rightarrow> error + nat" where
  "compressed_size_from_list VNone = Inr 0"
| "compressed_size_from_list (VBytes b) = Inr (length b)"
| "compressed_size_from_list (VNdarray a) = Inr (nbytes a)"
| "compressed_size_from_list (VTensor t) = Inr (nbytes (numpy t))"
| "compressed_size_from_list (VStr s) = (if s = [] then Inr 0 else Inl RecursionError)"
| "compressed_size_from_list (VList xs) = sum_sizes (map compressed_size_from_list xs)"
| "compressed_size_from_list (VDict fs) =
     sum_sizes (map snd (map (map_prod id compressed_size_from_list) fs))"
| "compressed_size_from_list (VTensorDict bs fs) =
     sum_sizes (map snd (map (map_prod id compressed_size_from_list) fs))"
| "compressed_size_from_list (VOther n) = Inr 0"

datatype warning = UserWarning

definition CompressedListStorage_bytes ::
    "'z CompressedListStorage_scheme \<Rightarrow> (error + nat) \<times> warning list" where
  "CompressedListStorage_bytes self =
     (case compressed_size_from_list (VList (storage self)) of
        Inl e \<Rightarrow> (Inl e, [])
      | Inr compressed_size_estimate \<Rightarrow>
          if compressed_size_estimate = 0 then
            (if length (storage self) > 0 then (Inl RuntimeError, [])
             else (Inr compressed_size_estimate, [UserWarning]))
          else (Inr compressed_size_estimate, []))"

text \<open>
  The sum the documentation of \<^verbatim>\<open>bytes\<close> speaks of, written down on its own to be
  compared with the code: the bytes of every bytes object, array and tensor found in
  nested lists, mappings and tensordicts. \<open>no_str\<close> holds of an object with no string
  in it but the empty one.
\<close>

primrec payload_size :: "val \<Rightarrow> nat" where
  "payload_size VNone = 0"
| "payload_size (VBytes b) = length b"
| "payload_size (VNdarray a) = numel (ashape a) * itemsize (adtype a)"
| "payload_size (VTensor t) = numel (tshape t) * itemsize (tdtype t)"
| "payload_size (VStr s) = 0"
| "payload_size (VList xs) = sum_list (map payload_size xs)"
| "payload_size (VDict fs) = sum_list (map snd (map (map_prod id payload_size) fs))"
| "payload_size (VTensorDict bs fs) = sum_list (map snd (map (map_prod id payload_size) fs))"
| "payload_size (VOther n) = 0"

primrec no_str :: "val \<Rightarrow> bool" where
  "no_str VNone = True"
| "no_str (VBytes b) = True"
| "no_str (VNdarray a) = True"
| "no_str (VTensor t) = True"
| "no_str (VStr s) = (s = [])"
| "no_str (VList xs) = list_all id (map no_str xs)"
| "no_str (VDict fs) = list_all snd (map (map_prod id no_str) fs)"
| "no_str (VTensorDict bs fs) = list_all snd (map (map_prod id no_str) fs)"
| "no_str (VOther n) = True"

section \<open>StorageEnsemble\<close>

text \<open>
  The members of an ensemble are storages of any class and state \<open>'s\<close>, read through
  their own \<^verbatim>\<open>get\<close>, the parameter \<open>member_get\<close> of \<open>StorageEnsemble_get\<close>. A
  transform is a function on the records the members return.
\<close>

record ('s, 'r) StorageEnsemble =
  storages :: "'s list"
  transforms :: "('r \<Rightarrow> 'r) option list option"

text \<open>\<^verbatim>\<open>StorageEnsemble.__init__\<close>\<close>

definition StorageEnsemble_new ::
    "'s list \<Rightarrow> ('r \<Rightarrow> 'r) option list option \<Rightarrow> error + ('s, 'r) StorageEnsemble" where
  "StorageEnsemble_new storages' transforms' =
     (case transforms' of
        None \<Rightarrow> Inr \<lparr>storages = storages', transforms = transforms'\<rparr>
      | Some ts \<Rightarrow>
          if length ts \<noteq> length storages' then Inl TypeError
          else Inr \<lparr>storages = storages', transforms = transforms'\<rparr>)"

text \<open>
  \<^verbatim>\<open>Storage.set\<close>: the body of the abstract method is \<^verbatim>\<open>...\<close>. The class
  \<^verbatim>\<open>Storage\<close> has no metaclass that would refuse to build an object of a subclass
  which leaves the method out; \<^verbatim>\<open>StorageEnsemble\<close> is such a subclass and inherits it.
\<close>

definition Storage_set :: "cursor \<Rightarrow> 'd \<Rightarrow> bool \<Rightarrow> 's \<Rightarrow> error option \<times> 's" where
  "Storage_set c data' set_cursor self = (None, self)"

definition StorageEnsemble_set ::
    "cursor \<Rightarrow> 'd \<Rightarrow> bool \<Rightarrow> ('s, 'r) StorageEnsemble \<Rightarrow> error option \<times> ('s, 'r) StorageEnsemble" where
  "StorageEnsemble_set = Storage_set"

definition StorageEnsemble_extend ::
    "'d \<Rightarrow> ('s, 'r) StorageEnsemble \<Rightarrow> error option \<times> ('s, 'r) StorageEnsemble" where
  "StorageEnsemble_extend v self = (Some RuntimeError, self)"

definition StorageEnsemble_add ::
    "'d \<Rightarrow> ('s, 'r) StorageEnsemble \<Rightarrow> error option \<times> ('s, 'r) StorageEnsemble" where
  "StorageEnsemble_add v self = (Some RuntimeError, self)"

definition StorageEnsemble_state_dict ::
    "('s, 'r) StorageEnsemble \<Rightarrow> error option \<times> ('s, 'r) StorageEnsemble" where
  "StorageEnsemble_state_dict self = (Some NotImplementedError, self)"

definition StorageEnsemble_load_state_dict ::
    "'d \<Rightarrow> ('s, 'r) StorageEnsemble \<Rightarrow> error option \<times> ('s, 'r) StorageEnsemble" where
  "StorageEnsemble_load_state_dict state_dict self = (Some NotImplementedError, self)"

text \<open>The index object of \<^verbatim>\<open>StorageEnsemble.get\<close>, by its two entries.\<close>

record 'i item =
  buffer_ids :: "int list"
  index :: "'i list"

text \<open>The first loop of \<^verbatim>\<open>get\<close>, over \<^verbatim>\<open>zip(buffer_ids, index)\<close>.\<close>

fun get_results ::
    "('s \<Rightarrow> 'i \<Rightarrow> error + 'r) \<Rightarrow> 's list \<Rightarrow> (int \<times> 'i) list \<Rightarrow> error + (int \<times> 'r) list" where
  "get_results member_get sts [] = Inr []"
| "get_results member_get sts ((buffer_id, sample) # rest) =
     (case py_index sts buffer_id of
        Inl e \<Rightarrow> Inl e
      | Inr st \<Rightarrow>
          (case member_get st sample of
             Inl e \<Rightarrow> Inl e
           | Inr r \<Rightarrow>
               (case get_results member_get sts rest of
                  Inl e \<Rightarrow> Inl e
                | Inr rs \<Rightarrow> Inr ((buffer_id, r) # rs))))"

text \<open>The second loop, run when there are transforms.\<close>

fun apply_transforms ::
    "('r \<Rightarrow> 'r) option list \<Rightarrow> (int \<times> 'r) list \<Rightarrow> error + (int \<times> 'r) list" where
  "apply_transforms ts [] = Inr []"
| "apply_transforms ts ((buffer_id, result) # rest) =
     (case py_index ts buffer_id of
        Inl e \<Rightarrow> Inl e
      | Inr t \<Rightarrow>
          (case apply_transforms ts rest of
             Inl e \<Rightarrow> Inl e
           | Inr rs \<Rightarrow>
               Inr ((buffer_id, (case t of None \<Rightarrow> result | Some f \<Rightarrow> f result)) # rs)))"

definition StorageEnsemble_get ::
    "('s \<Rightarrow> 'i \<Rightarrow> error + 'r) \<Rightarrow> ('s, 'r) StorageEnsemble \<Rightarrow> 'i item
      \<Rightarrow> error + (int \<times> 'r) list" where
  "StorageEnsemble_get member_get self itm =
     (case get_results member_get (storages self) (zip (buffer_ids itm) (index itm)) of
        Inl e \<Rightarrow> Inl e
      | Inr results \<Rightarrow>
          (case transforms self of
             None \<Rightarrow> Inr results
           | Some ts \<Rightarrow> apply_transforms ts results))"

section \<open>TensorStorage, LazyTensorStorage and LazyMemmapStorage\<close>

text \<open>
  The data written to a pre-allocated storage is a tensor or a tensordict. The storage
  looks at its shape (the batch size of a tensordict) and at its entries along the first
  axis: \<open>Stack ds\<close> has the entries \<open>ds\<close>, \<open>Elem x\<close> has no axis. Element types and
  placement are left out, and so is the conversion of a record to the element type and
  device of the buffer.
\<close>

datatype 'a tdata = Elem 'a | Stack "'a tdata list"

fun shape :: "'a tdata \<Rightarrow> nat list" where
  "shape (Elem x) = []"
| "shape (Stack []) = [0]"
| "shape (Stack (d # ds)) = Suc (length ds) # shape d"

text \<open>\<^verbatim>\<open>xs[:n]\<close>\<close>

definition py_take :: "int \<Rightarrow> 'a list \<Rightarrow> 'a list" where
  "py_take n xs = (if n < 0 then take (nat (int (length xs) + n)) xs else take (nat n) xs)"

text \<open>The argument \<^verbatim>\<open>data\<close> of \<^verbatim>\<open>set\<close>: a tensor or tensordict, or a Python list of them.\<close>

datatype 'a tsdata = Tensor "'a tdata" | PyList "'a tdata list"

text \<open>
  A cursor along the first axis: an integer, a slice, or a sequence of integers (a list, a
  range, a tensor with one axis). Tuples and index tensors with more axes, which address
  single slots inside a row, are left out.
\<close>

datatype tcursor = TInt int | TSlice slice | TList "int list"

text \<open>
  The buffer \<^verbatim>\<open>_storage\<close>, once allocated: its shape and its entries along the first
  axis. \<^verbatim>\<open>torch.empty\<close> leaves the memory as it finds it; an entry never written is
  \<open>None\<close>.
\<close>

record 'a buffer =
  bshape :: "nat list"
  rows :: "'a tdata option list"

record 'a TensorStorage = Storage +
  ndim :: int
  compilable :: bool
  initialized :: bool
  len_value :: int
  tstorage :: "'a buffer option"
  last_cursor :: "tcursor option"

text \<open>
  The property \<^verbatim>\<open>_len\<close>. A storage that is not compilable keeps the count in
  \<^verbatim>\<open>mp.Value("i", 0)\<close>, a C \<^verbatim>\<open>int\<close> in shared memory: what is stored is the value
  modulo \<open>2 ^ 32\<close>, read back as a signed number.
\<close>

definition get_len :: "('a, 'z) TensorStorage_scheme \<Rightarrow> int" where
  "get_len self = len_value self"

definition set_len :: "int \<Rightarrow> ('a, 'z) TensorStorage_scheme \<Rightarrow> ('a, 'z) TensorStorage_scheme" where
  "set_len v self =
     self\<lparr>len_value := (if compilable self then v else sint (word_of_int v :: 32 word))\<rparr>"

definition TensorStorage_len :: "('a, 'z) TensorStorage_scheme \<Rightarrow> int" where
  "TensorStorage_len self = get_len self"

text \<open>\<^verbatim>\<open>LazyTensorStorage.__init__\<close>, and that of \<^verbatim>\<open>LazyMemmapStorage\<close>.\<close>

definition LazyTensorStorage_new :: "int \<Rightarrow> int \<Rightarrow> bool \<Rightarrow> 'a TensorStorage" where
  "LazyTensorStorage_new max_size' ndim' compilable' =
     set_len 0
       \<lparr>max_size = max_size', ndim = ndim', compilable = compilable', initialized = False,
        len_value = 0, tstorage = None, last_cursor = None\<rparr>"

text \<open>
  Modelled from the spec: \<^verbatim>\<open>_is_int\<close> and \<^verbatim>\<open>INT_CLASSES\<close> of
  \<^verbatim>\<open>torchrl/data/replay_buffers/utils.py\<close> are not among the sources. A scalar
  integer cursor is an integer, a slice or a sequence is not.
\<close>

fun is_int :: "tcursor \<Rightarrow> bool" where
  "is_int (TInt c) = True"
| "is_int c = False"

text \<open>\<^verbatim>\<open>TensorStorage._get_new_len\<close>\<close>

definition get_new_len ::
    "'a tdata \<Rightarrow> tcursor \<Rightarrow> ('a, 'z) TensorStorage_scheme \<Rightarrow> ('a, 'z) TensorStorage_scheme" where
  "get_new_len data' c self =
     (let nd = ndim self - (if is_int c then 1 else 0);
          n = numel (py_take nd (shape data'))
      in set_len (min (get_len self + int n) (max_size self)) self)"

text \<open>
  \<^verbatim>\<open>LazyTensorStorage._init\<close> with its local function \<^verbatim>\<open>max_size_along_dim0\<close>,
  which returns the shape of the buffer and, when \<^verbatim>\<open>ndim > 1\<close>, sets
  \<^verbatim>\<open>self.max_size\<close> to the number of elements of that shape. The buffer is then
  allocated, which fails for a negative size.
\<close>

definition max_size_along_dim0 ::
    "nat list \<Rightarrow> ('a, 'z) TensorStorage_scheme
      \<Rightarrow> (error + int \<times> nat list) \<times> ('a, 'z) TensorStorage_scheme" where
  "max_size_along_dim0 data_shape self =
     (if ndim self > 1 then
        (let d = int (numel (py_take (ndim self - 1) data_shape)) in
         if d = 0 then (Inl ZeroDivisionError, self)
         else
           (let r = - (max_size self div (- d))
            in (Inr (r, data_shape), self\<lparr>max_size := r * int (numel data_shape)\<rparr>)))
      else (Inr (max_size self, data_shape), self))"

definition LazyTensorStorage_init ::
    "'a tdata \<Rightarrow> ('a, 'z) TensorStorage_scheme \<Rightarrow> error option \<times> ('a, 'z) TensorStorage_scheme" where
  "LazyTensorStorage_init data' self =
     (case max_size_along_dim0 (shape data') self of
        (Inl e, self') \<Rightarrow> (Some e, self')
      | (Inr (r, data_shape), self') \<Rightarrow>
          if r < 0 then (Some RuntimeError, self')
          else
            (None,
             self'\<lparr>tstorage := Some \<lparr>bshape = nat r # data_shape, rows = replicate (nat r) None\<rparr>,
                    initialized := True\<rparr>))"

text \<open>
  \<^verbatim>\<open>LazyMemmapStorage._init\<close> has the same local function and differs in where the
  buffer lives; its test of the device cannot fail after \<^verbatim>\<open>__init__\<close>.
\<close>

definition LazyMemmapStorage_init ::
    "'a tdata \<Rightarrow> ('a, 'z) TensorStorage_scheme \<Rightarrow> error option \<times> ('a, 'z) TensorStorage_scheme" where
  "LazyMemmapStorage_init = LazyTensorStorage_init"

text \<open>
  \<^verbatim>\<open>TensorStorage._init\<close> is declared with no argument but \<^verbatim>\<open>self\<close>; the call
  \<^verbatim>\<open>self._init(data)\<close> raises before its body is reached.
\<close>

definition TensorStorage_init ::
    "'a tdata \<Rightarrow> ('a, 'z) TensorStorage_scheme \<Rightarrow> error option \<times> ('a, 'z) TensorStorage_scheme" where
  "TensorStorage_init data' self = (Some TypeError, self)"

text \<open>\<^verbatim>\<open>_flip_list\<close>: \<^verbatim>\<open>torch.stack\<close> of the items, which must be of one shape.\<close>

definition flip_list :: "'a tdata list \<Rightarrow> error + 'a tdata" where
  "flip_list ds =
     (case ds of
        [] \<Rightarrow> Inl RuntimeError
      | d # _ \<Rightarrow> if list_all (\<lambda>d'. shape d' = shape d) ds then Inr (Stack ds) else Inl RuntimeError)"

text \<open>\<^verbatim>\<open>data[0]\<close>\<close>

fun first :: "'a tdata \<Rightarrow> error + 'a tdata" where
  "first (Stack (d # ds)) = Inr d"
| "first d = Inl IndexError"

text \<open>
  The entries of a buffer with \<open>n\<close> entries that a cursor addresses. A negative index
  counts from the end; torch refuses a negative step.
\<close>

fun norm_rows :: "nat \<Rightarrow> int list \<Rightarrow> error + nat list" where
  "norm_rows n [] = Inr []"
| "norm_rows n (c # cs) =
     (let j = (if c < 0 then c + int n else c) in
      if 0 \<le> j \<and> j < int n then
        (case norm_rows n cs of Inl e \<Rightarrow> Inl e | Inr js \<Rightarrow> Inr (nat j # js))
      else Inl IndexError)"

fun cursor_rows :: "nat \<Rightarrow> tcursor \<Rightarrow> error + nat list" where
  "cursor_rows n (TInt c) = norm_rows n [c]"
| "cursor_rows n (TList cs) = norm_rows n cs"
| "cursor_rows n (TSlice sl) =
     (case indices sl (int n) of
        Inl e \<Rightarrow> Inl e
      | Inr (a, b, st) \<Rightarrow> if st < 0 then Inl ValueError else Inr (map nat (py_range a b st)))"

text \<open>
  \<^verbatim>\<open>self._storage[cursor] = data\<close>. The data must have the shape of what the cursor
  selects: one entry for an integer, one entry for each index otherwise. Assignments that
  torch would broadcast count as a mismatch here. Of two writes to one entry the later
  one stays.
\<close>

definition setitem :: "'a buffer \<Rightarrow> tcursor \<Rightarrow> 'a tdata \<Rightarrow> error + 'a buffer" where
  "setitem b c data' =
     (case cursor_rows (length (rows b)) c of
        Inl e \<Rightarrow> Inl e
      | Inr js \<Rightarrow>
          (let ds = (if is_int c then [data'] else (case data' of Stack ds' \<Rightarrow> ds' | Elem x \<Rightarrow> []))
           in if (is_int c \<or> data' = Stack ds) \<and> length ds = length js
                 \<and> list_all (\<lambda>d. shape d = tl (bshape b)) ds
              then Inr (b\<lparr>rows := fold (\<lambda>(j, d) acc. acc[j := Some d]) (zip js ds) (rows b)\<rparr>)
              else Inl RuntimeError))"

text \<open>
  The first step of \<^verbatim>\<open>set\<close> on its data: a list is stacked by \<^verbatim>\<open>_flip_list\<close>,
  and any exception of that is raised as a \<^verbatim>\<open>RuntimeError\<close>.
\<close>

definition as_tensor :: "'a tsdata \<Rightarrow> error + 'a tdata" where
  "as_tensor data' =
     (case data' of
        Tensor d \<Rightarrow> Inr d
      | PyList ds \<Rightarrow> (case flip_list ds of Inl e \<Rightarrow> Inl RuntimeError | Inr d \<Rightarrow> Inr d))"

text \<open>
  \<^verbatim>\<open>TensorStorage.set\<close>, the implementation for torch 2.0 and later, with its last two
  steps on their own: the allocation of the buffer at the first write, from the first
  entry of the data unless the cursor is an integer, and the assignment
  \<^verbatim>\<open>self._storage[cursor] = data\<close>. The method \<^verbatim>\<open>_init\<close> is that of the object's
  class and comes as the first argument.
\<close>

definition init_storage ::
    "('a tdata \<Rightarrow> ('a, 'z) TensorStorage_scheme \<Rightarrow> error option \<times> ('a, 'z) TensorStorage_scheme)
      \<Rightarrow> tcursor \<Rightarrow> 'a tdata \<Rightarrow> ('a, 'z) TensorStorage_scheme
      \<Rightarrow> error option \<times> ('a, 'z) TensorStorage_scheme" where
  "init_storage init c d self =
     (if \<not> initialized self then
        (if \<not> is_int c then
           (case first d of Inl e \<Rightarrow> (Some e, self) | Inr d0 \<Rightarrow> init d0 self)
         else init d self)
      else (None, self))"

definition write_storage ::
    "tcursor \<Rightarrow> 'a tdata \<Rightarrow> ('a, 'z) TensorStorage_scheme
      \<Rightarrow> error option \<times> ('a, 'z) TensorStorage_scheme" where
  "write_storage c d self =
     (case tstorage self of
        None \<Rightarrow> (Some TypeError, self)
      | Some b \<Rightarrow>
          (case setitem b c d of
             Inl e \<Rightarrow> (Some e, self)
           | Inr b' \<Rightarrow> (None, self\<lparr>tstorage := Some b'\<rparr>)))"

definition TensorStorage_set ::
    "('a tdata \<Rightarrow> ('a, 'z) TensorStorage_scheme \<Rightarrow> error option \<times> ('a, 'z) TensorStorage_scheme)
      \<Rightarrow> tcursor \<Rightarrow> 'a tsdata \<Rightarrow> bool \<Rightarrow> ('a, 'z) TensorStorage_scheme
      \<Rightarrow> error option \<times> ('a, 'z) TensorStorage_scheme" where
  "TensorStorage_set init c data' set_cursor self =
     (let self1 = (if set_cursor then self\<lparr>last_cursor := Some c\<rparr> else self) in
      case as_tensor data' of
        Inl e \<Rightarrow> (Some e, self1)
      | Inr d \<Rightarrow>
          (let self2 = (if set_cursor then get_new_len d c self1 else self1) in
           case init_storage init c d self2 of
             (Some e, self3) \<Rightarrow> (Some e, self3)
           | (None, self3) \<Rightarrow> write_storage c d self3))"

text \<open>\<^verbatim>\<open>Storage.__setitem__\<close> on a pre-allocated storage.\<close>

definition TensorStorage_setitem ::
    "('a tdata \<Rightarrow> ('a, 'z) TensorStorage_scheme \<Rightarrow> error option \<times> ('a, 'z) TensorStorage_scheme)
      \<Rightarrow> tcursor \<Rightarrow> 'a tsdata \<Rightarrow> ('a, 'z) TensorStorage_scheme
      \<Rightarrow> error option \<times> ('a, 'z) TensorStorage_scheme" where
  "TensorStorage_setitem init c v self = TensorStorage_set init c v False self"

text \<open>A sequence of calls of \<^verbatim>\<open>set\<close> with \<^verbatim>\<open>set_cursor=True\<close>, up to the first that raises.\<close>

fun set_all ::
    "('a tdata \<Rightarrow> ('a, 'z) TensorStorage_scheme \<Rightarrow> error option \<times> ('a, 'z) TensorStorage_scheme)
      \<Rightarrow> (tcursor \<times> 'a tsdata) list \<Rightarrow> ('a, 'z) TensorStorage_scheme
      \<Rightarrow> error option \<times> ('a, 'z) TensorStorage_scheme" where
  "set_all init [] self = (None, self)"
| "set_all init ((c, d) # ws) self =
     (case TensorStorage_set init c d True self of
        (None, self') \<Rightarrow> set_all init ws self'
      | (Some e, self') \<Rightarrow> (Some e, self'))"

text \<open>
  The slots of a storage are the positions along its first \<^verbatim>\<open>ndim\<close> axes; an entry of
  the buffer holds \<^verbatim>\<open>_total_shape[1:].numel()\<close> of them. \<open>occupied\<close> counts the slots
  of the entries that have been written.
\<close>

definition written :: "'b option list \<Rightarrow> nat" where
  "written rs = length (filter (\<lambda>r. r \<noteq> None) rs)"

definition row_size :: "('a, 'z) TensorStorage_scheme \<Rightarrow> 'a buffer \<Rightarrow> nat" where
  "row_size self b = numel (tl (py_take (ndim self) (bshape b)))"

definition nrows :: "('a, 'z) TensorStorage_scheme \<Rightarrow> nat" where
  "nrows self = (case tstorage self of None \<Rightarrow> 0 | Some b \<Rightarrow> length (rows b))"

definition item_shape :: "('a, 'z) TensorStorage_scheme \<Rightarrow> nat list" where
  "item_shape self = (case tstorage self of None \<Rightarrow> [] | Some b \<Rightarrow> tl (bshape b))"

definition occupied :: "('a, 'z) TensorStorage_scheme \<Rightarrow> nat" where
  "occupied self =
     (case tstorage self of
        None \<Rightarrow> 0
      | Some b \<Rightarrow> written (rows b) * row_size self b)"

text \<open>
  The number of elements a write counts, \<^verbatim>\<open>data.shape[:ndim].numel()\<close> with one axis
  less for a scalar cursor, and the entries its cursor addresses in a buffer of \<open>n\<close>
  entries (none when the cursor is refused).
\<close>

definition counted :: "int \<Rightarrow> tcursor \<Rightarrow> 'a tsdata \<Rightarrow> nat" where
  "counted nd c data' =
     (case as_tensor data' of
        Inl e \<Rightarrow> 0
      | Inr d \<Rightarrow> numel (py_take (nd - (if is_int c then 1 else 0)) (shape d)))"

definition rows_of :: "nat \<Rightarrow> tcursor \<Rightarrow> nat list" where
  "rows_of n c = (case cursor_rows n c of Inl e \<Rightarrow> [] | Inr js \<Rightarrow> js)"

section \<open>Properties of the list-backed storages\<close>

subsection \<open>Writes at a scalar cursor\<close>

text \<open>
  C3. A write of \<^verbatim>\<open>ListStorage\<close> at the scalar cursor \<open>c\<close> raises the
  \<^verbatim>\<open>RuntimeError\<close> of the range checks and changes nothing when \<open>c\<close> is beyond the
  length or not below \<open>max_size\<close>; otherwise it appends the record when \<open>c\<close> is the
  length and overwrites slot \<open>c\<close> when \<open>c\<close> is a position below the length. The record
  stored is the one moved to the device of the storage, if it has one.
\<close>

theorem ListStorage_set_scalar:
  "(c > int (length (storage self)) \<or> c \<ge> max_size self \<longrightarrow>
      ListStorage_set ListStorage_class (CInt c) r sc self = (Some RuntimeError, self))
   \<and> (c = int (length (storage self)) \<and> c < max_size self \<longrightarrow>
      ListStorage_set ListStorage_class (CInt c) r sc self
        = (None, self\<lparr>storage := storage self @ [to_device self r]\<rparr>))
   \<and> (0 \<le> c \<and> c < int (length (storage self)) \<and> c < max_size self \<longrightarrow>
      ListStorage_set ListStorage_class (CInt c) r sc self
        = (None, self\<lparr>storage := (storage self)[nat c := to_device self r]\<rparr>))"
  by (simp add: ListStorage_class_def ListStorage_set_item_def py_setitem_def)

text \<open>
  The run of the specification: with \<open>max_size = 5\<close> the writes at 0, 1 and 2 succeed, the
  writes at 4 and at 5 are refused, and a write at 1 overwrites.
\<close>

theorem ListStorage_set_scalar_witness:
  "ListStorage_set ListStorage_class (CInt 0) (VOther 0) True (ListStorage_new 5 None)
     = (None, ListStorage_new 5 None\<lparr>storage := [VOther 0]\<rparr>)
   \<and> ListStorage_set ListStorage_class (CInt 1) (VOther 1) True
       (ListStorage_new 5 None\<lparr>storage := [VOther 0]\<rparr>)
     = (None, ListStorage_new 5 None\<lparr>storage := [VOther 0, VOther 1]\<rparr>)
   \<and> ListStorage_set ListStorage_class (CInt 2) (VOther 2) True
       (ListStorage_new 5 None\<lparr>storage := [VOther 0, VOther 1]\<rparr>)
     = (None, ListStorage_new 5 None\<lparr>storage := [VOther 0, VOther 1, VOther 2]\<rparr>)
   \<and> ListStorage_set ListStorage_class (CInt 4) (VOther 4) True
       (ListStorage_new 5 None\<lparr>storage := [VOther 0, VOther 1, VOther 2]\<rparr>)
     = (Some RuntimeError, ListStorage_new 5 None\<lparr>storage := [VOther 0, VOther 1, VOther 2]\<rparr>)
   \<and> ListStorage_set ListStorage_class (CInt 5) (VOther 5) True
       (ListStorage_new 5 None\<lparr>storage := [VOther 0, VOther 1, VOther 2]\<rparr>)
     = (Some RuntimeError, ListStorage_new 5 None\<lparr>storage := [VOther 0, VOther 1, VOther 2]\<rparr>)
   \<and> ListStorage_set ListStorage_class (CInt 1) (VOther 9) True
       (ListStorage_new 5 None\<lparr>storage := [VOther 0, VOther 1, VOther 2]\<rparr>)
     = (None, ListStorage_new 5 None\<lparr>storage := [VOther 0, VOther 9, VOther 2]\<rparr>)"
proof -
  let ?s0 = "ListStorage_new 5 None"
  let ?s1 = "?s0\<lparr>storage := [VOther 0]\<rparr>"
  let ?s2 = "?s0\<lparr>storage := [VOther 0, VOther 1]\<rparr>"
  let ?s3 = "?s0\<lparr>storage := [VOther 0, VOther 1, VOther 2]\<rparr>"
  have "ListStorage_set ListStorage_class (CInt 0) (VOther 0) True ?s0 = (None, ?s1)"
    using ListStorage_set_scalar [where c=0 and self="?s0" and r="VOther 0" and sc=True]
    by (simp add: ListStorage_new_def to_device_def)
  moreover have "ListStorage_set ListStorage_class (CInt 1) (VOther 1) True ?s1 = (None, ?s2)"
    using ListStorage_set_scalar [where c=1 and self="?s1" and r="VOther 1" and sc=True]
    by (simp add: ListStorage_new_def to_device_def)
  moreover have "ListStorage_set ListStorage_class (CInt 2) (VOther 2) True ?s2 = (None, ?s3)"
    using ListStorage_set_scalar [where c=2 and self="?s2" and r="VOther 2" and sc=True]
    by (simp add: ListStorage_new_def to_device_def)
  moreover have "ListStorage_set ListStorage_class (CInt 4) (VOther 4) True ?s3
      = (Some RuntimeError, ?s3)"
    using ListStorage_set_scalar [where c=4 and self="?s3" and r="VOther 4" and sc=True]
    by (simp add: ListStorage_new_def)
  moreover have "ListStorage_set ListStorage_class (CInt 5) (VOther 5) True ?s3
      = (Some RuntimeError, ?s3)"
    using ListStorage_set_scalar [where c=5 and self="?s3" and r="VOther 5" and sc=True]
    by (simp add: ListStorage_new_def)
  moreover have "ListStorage_set ListStorage_class (CInt 1) (VOther 9) True ?s3
      = (None, ?s0\<lparr>storage := [VOther 0, VOther 9, VOther 2]\<rparr>)"
    using ListStorage_set_scalar [where c=1 and self="?s3" and r="VOther 9" and sc=True]
    by (simp add: ListStorage_new_def to_device_def)
  ultimately show ?thesis by blast
qed

subsection \<open>Reads at a tuple\<close>

lemma tuple_many: "length t > 1 \<Longrightarrow> ListStorage_get cls self (ITuple t) = Inl RuntimeError"
proof -
  assume "length t > 1"
  then obtain i j rest where "t = i # j # rest"
    by (cases t; cases "tl t") auto
  then show ?thesis by simp
qed

lemma tuple_one:
  "length t = 1 \<Longrightarrow> ListStorage_get cls self (ITuple t) = ListStorage_get cls self (t ! 0)"
proof -
  assume "length t = 1"
  then obtain i where "t = [i]"
    by (cases t) auto
  then show ?thesis by simp
qed

text \<open>
  What \<^verbatim>\<open>LazyStackStorage.get\<close> returns is never a plain list, so stacking it once
  more changes nothing.
\<close>

lemma stack_out_idem: "stack_out self (stack_out self r) = stack_out self r"
  by (auto simp: stack_out_def split: sum.splits stacked.splits val.splits list.splits)

lemma stack_out_get: "stack_out self (LazyStackStorage_get self i) = LazyStackStorage_get self i"
  by (induction self i rule: LazyStackStorage_get.induct)
     (simp_all add: stack_out_idem, simp_all add: stack_out_def)

text \<open>
  C10. For \<^verbatim>\<open>ListStorage\<close> and its subclasses \<^verbatim>\<open>CompressedListStorage\<close> and
  \<^verbatim>\<open>LazyStackStorage\<close>, \<^verbatim>\<open>get\<close> raises \<^verbatim>\<open>RuntimeError\<close> on a tuple of more than
  one element, and on a tuple \<open>t\<close> of one element returns what it returns on \<open>t[0]\<close>.
\<close>

theorem get_tuple:
  "(length t > 1 \<longrightarrow>
      ListStorage_get ListStorage_class (ls :: ListStorage) (ITuple t) = Inl RuntimeError
    \<and> ListStorage_get CompressedListStorage_class (cs :: CompressedListStorage) (ITuple t)
        = Inl RuntimeError
    \<and> LazyStackStorage_get (zs :: LazyStackStorage) (ITuple t) = Inl RuntimeError)
   \<and> (length t = 1 \<longrightarrow>
      ListStorage_get ListStorage_class ls (ITuple t) = ListStorage_get ListStorage_class ls (t ! 0)
    \<and> ListStorage_get CompressedListStorage_class cs (ITuple t)
        = ListStorage_get CompressedListStorage_class cs (t ! 0)
    \<and> LazyStackStorage_get zs (ITuple t) = LazyStackStorage_get zs (t ! 0))"
proof (intro conjI impI)
  assume many: "length t > 1"
  then obtain i j rest where t: "t = i # j # rest"
    by (cases t; cases "tl t") auto
  show "ListStorage_get ListStorage_class ls (ITuple t) = Inl RuntimeError"
    using many by (rule tuple_many)
  show "ListStorage_get CompressedListStorage_class cs (ITuple t) = Inl RuntimeError"
    using many by (rule tuple_many)
  show "LazyStackStorage_get zs (ITuple t) = Inl RuntimeError"
    using t by simp
next
  assume one: "length t = 1"
  then obtain i where t: "t = [i]"
    by (cases t) auto
  show "ListStorage_get ListStorage_class ls (ITuple t)
        = ListStorage_get ListStorage_class ls (t ! 0)"
    using one by (rule tuple_one)
  show "ListStorage_get CompressedListStorage_class cs (ITuple t)
        = ListStorage_get CompressedListStorage_class cs (t ! 0)"
    using one by (rule tuple_one)
  show "LazyStackStorage_get zs (ITuple t) = LazyStackStorage_get zs (t ! 0)"
    using t by (simp add: stack_out_get)
qed

theorem get_tuple_witness:
  "ListStorage_get ListStorage_class (ListStorage_new 5 None\<lparr>storage := [VOther 1, VOther 2]\<rparr>)
      (ITuple [IInt 0, IInt 1]) = Inl RuntimeError
   \<and> ListStorage_get ListStorage_class (ListStorage_new 5 None\<lparr>storage := [VOther 1, VOther 2]\<rparr>)
      (ITuple [IInt 1]) = Inr (VOther 2)"
proof -
  let ?s = "ListStorage_new 5 None\<lparr>storage := [VOther 1, VOther 2]\<rparr>"
  have a: "ListStorage_get ListStorage_class ?s (ITuple [IInt 0, IInt 1]) = Inl RuntimeError"
    using get_tuple [of "[IInt 0, IInt 1]" ?s] by simp
  have b: "ListStorage_get ListStorage_class ?s (ITuple [IInt 1])
           = ListStorage_get ListStorage_class ?s (IInt 1)"
    using get_tuple [of "[IInt 1]" ?s] by simp
  have c: "ListStorage_get ListStorage_class ?s (IInt 1) = Inr (VOther 2)"
    by (simp add: ListStorage_class_def ListStorage_get_item_def py_index_def ListStorage_new_def)
  show ?thesis using a b c by simp
qed

subsection \<open>The capacity under slice cursors\<close>

text \<open>
  C1. The length of a storage is to stay within \<open>max_size\<close> whatever the cursors of the
  calls of \<^verbatim>\<open>set\<close>. \<^verbatim>\<open>ListStorage.set\<close> tests \<open>max_size\<close> on a scalar cursor only;
  a slice cursor goes to \<^verbatim>\<open>self._storage[cursor] = data\<close> untested. On a fresh storage
  with \<open>max_size = 2\<close>, the slice \<^verbatim>\<open>slice(0, None)\<close> and three records leave three
  records behind.
\<close>

theorem ListStorage_slice_beyond_max_size:
  "ListStorage_set ListStorage_class (CSlice (Slice (Some 0) None None))
     (VList [VOther 0, VOther 1, VOther 2]) True (ListStorage_new 2 None)
   = (None, \<lparr>max_size = 2, device = None, storage = [VOther 0, VOther 1, VOther 2]\<rparr>)
   \<and> len ListStorage_class
       \<lparr>max_size = 2, device = None, storage = [VOther 0, VOther 1, VOther 2]\<rparr> = 3"
  by (simp add: ListStorage_class_def ListStorage_set_slice_def ListStorage_new_def
      to_device_def py_setslice_def indices_def ListStorage_len_def)

subsection \<open>Item assignment\<close>

text \<open>
  C8. A call of \<^verbatim>\<open>set\<close> with \<^verbatim>\<open>set_cursor=False\<close>, which is what
  \<^verbatim>\<open>__setitem__\<close> makes, is to leave the length as it is. \<^verbatim>\<open>ListStorage.set\<close> never
  reads the flag: item assignment at the position just past the end appends, and the
  length of an empty storage becomes 1.
\<close>

theorem ListStorage_setitem_changes_len:
  "len ListStorage_class (ListStorage_new 5 None) = 0
   \<and> ListStorage_setitem ListStorage_class (CInt 0) (VOther 7) (ListStorage_new 5 None)
       = (None, \<lparr>max_size = 5, device = None, storage = [VOther 7]\<rparr>)
   \<and> len ListStorage_class \<lparr>max_size = 5, device = None, storage = [VOther 7]\<rparr> = 1"
  by (simp add: ListStorage_class_def ListStorage_set_item_def ListStorage_new_def
      to_device_def ListStorage_len_def ListStorage_setitem_def)

subsection \<open>The size of a compressed storage\<close>

lemma sum_sizes_map:
  "(\<And>x. x \<in> set xs \<Longrightarrow> f x = Inr (g x)) \<Longrightarrow> sum_sizes (map f xs) = Inr (sum_list (map g xs))"
  by (induction xs) auto

lemma sum_sizes_Inr:
  "sum_sizes (map f xs) = Inr n \<Longrightarrow> (\<And>x m. x \<in> set xs \<Longrightarrow> f x = Inr m \<Longrightarrow> m = g x)
    \<Longrightarrow> n = sum_list (map g xs)"
proof (induction xs arbitrary: n)
  case Nil
  then show ?case by simp
next
  case (Cons x xs)
  from Cons.prems(1) obtain a b where a: "f x = Inr a" and b: "sum_sizes (map f xs) = Inr b"
    and n: "n = a + b"
    by (auto split: sum.splits)
  have "a = g x" using Cons.prems(2) a by simp
  moreover have "b = sum_list (map g xs)" using Cons.IH [OF b] Cons.prems(2) by simp
  ultimately show ?case using n by simp
qed

text \<open>On an object without strings the function of \<^verbatim>\<open>bytes\<close> returns the sum.\<close>

lemma size_no_str: "no_str v \<Longrightarrow> compressed_size_from_list v = Inr (payload_size v)"
proof (induction v)
  case (VList xs)
  then show ?case by (auto simp: list_all_iff intro!: sum_sizes_map)
next
  case (VDict fs)
  have "sum_sizes (map (\<lambda>kv. compressed_size_from_list (snd kv)) fs)
        = Inr (sum_list (map (\<lambda>kv. payload_size (snd kv)) fs))"
    using VDict by (intro sum_sizes_map) (auto simp: list_all_iff)
  then show ?case by (simp add: comp_def)
next
  case (VTensorDict bs fs)
  have "sum_sizes (map (\<lambda>kv. compressed_size_from_list (snd kv)) fs)
        = Inr (sum_list (map (\<lambda>kv. payload_size (snd kv)) fs))"
    using VTensorDict by (intro sum_sizes_map) (auto simp: list_all_iff)
  then show ?case by (simp add: comp_def)
qed (auto simp: nbytes_def numpy_def)

text \<open>Whatever it returns is the sum.\<close>

lemma size_returned: "compressed_size_from_list v = Inr n \<Longrightarrow> n = payload_size v"
proof (induction v arbitrary: n)
  case (VList xs)
  then show ?case by (auto intro: sum_sizes_Inr)
next
  case (VDict fs)
  have "n = sum_list (map (\<lambda>kv. payload_size (snd kv)) fs)"
  proof (rule sum_sizes_Inr)
    show "sum_sizes (map (\<lambda>kv. compressed_size_from_list (snd kv)) fs) = Inr n"
      using VDict.prems by (simp add: comp_def)
  next
    fix x m assume "x \<in> set fs" "compressed_size_from_list (snd x) = Inr m"
    moreover have "snd x \<in> Basic_BNFs.snds x" by (cases x) simp
    ultimately show "m = payload_size (snd x)" using VDict.IH [of x "snd x" m] by blast
  qed
  then show ?case by (simp add: comp_def)
next
  case (VTensorDict bs fs)
  have "n = sum_list (map (\<lambda>kv. payload_size (snd kv)) fs)"
  proof (rule sum_sizes_Inr)
    show "sum_sizes (map (\<lambda>kv. compressed_size_from_list (snd kv)) fs) = Inr n"
      using VTensorDict.prems by (simp add: comp_def)
  next
    fix x m assume "x \<in> set fs" "compressed_size_from_list (snd x) = Inr m"
    moreover have "snd x \<in> Basic_BNFs.snds x" by (cases x) simp
    ultimately show "m = payload_size (snd x)" using VTensorDict.IH [of x "snd x" m] by blast
  qed
  then show ?case by (simp add: comp_def)
qed (auto simp: nbytes_def numpy_def split: if_splits)

text \<open>
  What \<^verbatim>\<open>bytes\<close> does on a storage that holds no string: on the empty list it returns
  0 with a warning; it raises \<^verbatim>\<open>RuntimeError\<close> when the list is not empty and the sum
  of the payload sizes is zero, and returns that sum, without a warning, when it is
  positive. Whenever it returns a number, the number is that sum.
\<close>

lemma bytes_without_strings:
  "(storage self = [] \<longrightarrow> CompressedListStorage_bytes self = (Inr 0, [UserWarning]))
   \<and> (no_str (VList (storage self)) \<and> storage self \<noteq> []
        \<and> payload_size (VList (storage self)) = 0
        \<longrightarrow> CompressedListStorage_bytes self = (Inl RuntimeError, []))
   \<and> (no_str (VList (storage self)) \<and> payload_size (VList (storage self)) > 0
        \<longrightarrow> CompressedListStorage_bytes self = (Inr (payload_size (VList (storage self))), []))
   \<and> (CompressedListStorage_bytes self = (Inr n, w) \<longrightarrow> n = payload_size (VList (storage self)))"
proof (intro conjI impI)
  assume "storage self = []"
  then show "CompressedListStorage_bytes self = (Inr 0, [UserWarning])"
    by (simp add: CompressedListStorage_bytes_def)
next
  assume "no_str (VList (storage self)) \<and> storage self \<noteq> []
            \<and> payload_size (VList (storage self)) = 0"
  then have "compressed_size_from_list (VList (storage self)) = Inr 0" and "storage self \<noteq> []"
    using size_no_str [of "VList (storage self)"] by metis+
  then show "CompressedListStorage_bytes self = (Inl RuntimeError, [])"
    by (simp add: CompressedListStorage_bytes_def
        del: payload_size.simps compressed_size_from_list.simps no_str.simps)
next
  assume a: "no_str (VList (storage self)) \<and> payload_size (VList (storage self)) > 0"
  then have "compressed_size_from_list (VList (storage self))
             = Inr (payload_size (VList (storage self)))"
    using size_no_str [of "VList (storage self)"] by blast
  then show "CompressedListStorage_bytes self = (Inr (payload_size (VList (storage self))), [])"
    using a by (simp add: CompressedListStorage_bytes_def
        del: payload_size.simps compressed_size_from_list.simps no_str.simps)
next
  assume "CompressedListStorage_bytes self = (Inr n, w)"
  then have "compressed_size_from_list (VList (storage self)) = Inr n"
    by (auto simp: CompressedListStorage_bytes_def split: sum.splits if_splits)
  then show "n = payload_size (VList (storage self))"
    by (rule size_returned)
qed

text \<open>
  With or without strings, a list that is not empty and whose payload sizes sum to zero
  makes \<^verbatim>\<open>bytes\<close> raise.
\<close>

lemma bytes_raises_on_zero:
  assumes "storage self \<noteq> []" "payload_size (VList (storage self)) = 0"
  shows "\<exists>e. CompressedListStorage_bytes self = (Inl e, [])"
proof (cases "compressed_size_from_list (VList (storage self))")
  case (Inl e)
  then show ?thesis by (simp add: CompressedListStorage_bytes_def)
next
  case (Inr n)
  then have "n = 0" using size_returned [OF Inr] assms(2) by simp
  then show ?thesis using Inr assms(1)
    by (simp add: CompressedListStorage_bytes_def
        del: payload_size.simps compressed_size_from_list.simps)
qed

text \<open>
  An empty storage, a storage with a number as its one record, and a storage with a
  compressed tensor of three bytes and a dictionary with a compressed field of two.
\<close>

lemma bytes_examples:
  "CompressedListStorage_bytes
      (CompressedListStorage_new (\<lambda>l b. b) Inr 10 3 (Some CPU)) = (Inr 0, [UserWarning])
   \<and> CompressedListStorage_bytes
      (CompressedListStorage_new (\<lambda>l b. b) Inr 10 3 (Some CPU)
         \<lparr>storage := [VOther 7], metadata := [Some (MOther (VOther 7))]\<rparr>)
       = (Inl RuntimeError, [])
   \<and> CompressedListStorage_bytes
      (CompressedListStorage_new (\<lambda>l b. b) Inr 10 3 (Some CPU)
         \<lparr>storage :=
            [VTensor \<lparr>tshape = [3], tdtype = UInt8, tdevice = CPU, tbytes = [1, 2, 3]\<rparr>,
             VDict [(''obs'',
                VTensor \<lparr>tshape = [2], tdtype = UInt8, tdevice = CPU, tbytes = [4, 5]\<rparr>)]]\<rparr>)
       = (Inr 5, [])"
proof -
  let ?e = "CompressedListStorage_new (\<lambda>l b. b) Inr 10 3 (Some CPU)"
  let ?o = "?e\<lparr>storage := [VOther 7], metadata := [Some (MOther (VOther 7))]\<rparr>"
  let ?t = "?e\<lparr>storage :=
            [VTensor \<lparr>tshape = [3], tdtype = UInt8, tdevice = CPU, tbytes = [1, 2, 3]\<rparr>,
             VDict [(''obs'',
                VTensor \<lparr>tshape = [2], tdtype = UInt8, tdevice = CPU, tbytes = [4, 5]\<rparr>)]]\<rparr>"
  have "CompressedListStorage_bytes ?e = (Inr 0, [UserWarning])"
    using bytes_without_strings [where self="?e" and n=0 and w="[]"]
    by (simp add: CompressedListStorage_new_def)
  moreover have "CompressedListStorage_bytes ?o = (Inl RuntimeError, [])"
    using bytes_without_strings [where self="?o" and n=0 and w="[]"]
    by (simp add: CompressedListStorage_new_def)
  moreover have "CompressedListStorage_bytes ?t = (Inr 5, [])"
    using bytes_without_strings [where self="?t" and n=0 and w="[]"]
    by (simp add: CompressedListStorage_new_def numel_def)
  ultimately show ?thesis by blast
qed

text \<open>
  C9. \<^verbatim>\<open>CompressedListStorage.bytes\<close> is to return the recursive sum of the payload
  sizes of what the storage holds. A record that is neither a tensor nor a tensordict is
  stored as it is, a string among them, and the function of \<^verbatim>\<open>bytes\<close> takes a string
  for a \<^verbatim>\<open>Sequence\<close> and recurses on its characters without end. After a tensor of
  three bytes at cursor 0 and the string \<^verbatim>\<open>'hello'\<close> at cursor 1, both accepted, the
  sum of the payload sizes is 3 and \<^verbatim>\<open>bytes\<close> raises \<^verbatim>\<open>RecursionError\<close>.
\<close>

theorem CompressedListStorage_bytes_str:
  "ListStorage_set CompressedListStorage_class (CInt 0)
      (VTensor \<lparr>tshape = [3], tdtype = UInt8, tdevice = CPU, tbytes = [0, 0, 0]\<rparr>) True
      (CompressedListStorage_new (\<lambda>level b. b) Inr 10 3 (Some CPU))
    = (None, CompressedListStorage_new (\<lambda>level b. b) Inr 10 3 (Some CPU)
         \<lparr>storage := [VTensor \<lparr>tshape = [3], tdtype = UInt8, tdevice = CPU, tbytes = [0, 0, 0]\<rparr>],
          metadata := [Some (MTensor \<lparr>m_shape = [3], m_dtype = UInt8, m_device = CPU\<rparr>)]\<rparr>)
   \<and> ListStorage_set CompressedListStorage_class (CInt 1) (VStr ''hello'') True
      (CompressedListStorage_new (\<lambda>level b. b) Inr 10 3 (Some CPU)
         \<lparr>storage := [VTensor \<lparr>tshape = [3], tdtype = UInt8, tdevice = CPU, tbytes = [0, 0, 0]\<rparr>],
          metadata := [Some (MTensor \<lparr>m_shape = [3], m_dtype = UInt8, m_device = CPU\<rparr>)]\<rparr>)
    = (None, CompressedListStorage_new (\<lambda>level b. b) Inr 10 3 (Some CPU)
         \<lparr>storage := [VTensor \<lparr>tshape = [3], tdtype = UInt8, tdevice = CPU, tbytes = [0, 0, 0]\<rparr>,
                      VStr ''hello''],
          metadata := [Some (MTensor \<lparr>m_shape = [3], m_dtype = UInt8, m_device = CPU\<rparr>),
                       Some (MOther (VStr ''hello''))]\<rparr>)
   \<and> CompressedListStorage_bytes
      (CompressedListStorage_new (\<lambda>level b. b) Inr 10 3 (Some CPU)
         \<lparr>storage := [VTensor \<lparr>tshape = [3], tdtype = UInt8, tdevice = CPU, tbytes = [0, 0, 0]\<rparr>,
                      VStr ''hello''],
          metadata := [Some (MTensor \<lparr>m_shape = [3], m_dtype = UInt8, m_device = CPU\<rparr>),
                       Some (MOther (VStr ''hello''))]\<rparr>)
    = (Inl RecursionError, [])
   \<and> payload_size
      (VList [VTensor \<lparr>tshape = [3], tdtype = UInt8, tdevice = CPU, tbytes = [0, 0, 0]\<rparr>,
              VStr ''hello'']) = 3"
  by (simp add: CompressedListStorage_class_def CompressedListStorage_set_item_def
      CompressedListStorage_new_def to_device_def compress_item_def default_compression_fn_def
      frombuffer_def py_setitem_def py_index_def meta_of_def val_to_def
      CompressedListStorage_len_def CompressedListStorage_bytes_def Let_def numel_def)

section \<open>Properties of the ensemble\<close>

text \<open>
  The four methods that \<^verbatim>\<open>StorageEnsemble\<close> defines to refuse a write or a dump raise
  and leave the ensemble, hence every member, as it is.
\<close>

lemma StorageEnsemble_refuses:
  "StorageEnsemble_extend v self = (Some RuntimeError, self)
   \<and> StorageEnsemble_add v self = (Some RuntimeError, self)
   \<and> StorageEnsemble_state_dict self = (Some NotImplementedError, self)
   \<and> StorageEnsemble_load_state_dict sd self = (Some NotImplementedError, self)"
  by (simp add: StorageEnsemble_extend_def StorageEnsemble_add_def
      StorageEnsemble_state_dict_def StorageEnsemble_load_state_dict_def)

text \<open>
  C5. Every mutation of an ensemble is to raise. \<^verbatim>\<open>StorageEnsemble\<close> has no method
  \<^verbatim>\<open>set\<close> of its own: the call reaches \<^verbatim>\<open>Storage.set\<close>, which returns \<open>None\<close>. No
  member changes, and nothing is raised.
\<close>

theorem StorageEnsemble_set_returns:
  "StorageEnsemble_set c data' set_cursor self = (None, self)"
  by (simp add: StorageEnsemble_set_def Storage_set_def)

lemma get_results_ok:
  "(\<And>b i. (b, i) \<in> set ps \<Longrightarrow>
      0 \<le> b \<and> b < int (length sts) \<and> member_get (sts ! nat b) i = Inr (g b i))
   \<Longrightarrow> get_results member_get sts ps = Inr (map (\<lambda>(b, i). (b, g b i)) ps)"
proof (induction ps)
  case Nil
  then show ?case by simp
next
  case (Cons p ps)
  obtain b i where p: "p = (b, i)" by (cases p)
  have 1: "0 \<le> b \<and> b < int (length sts) \<and> member_get (sts ! nat b) i = Inr (g b i)"
    using Cons.prems [of b i] p by simp
  have 2: "get_results member_get sts ps = Inr (map (\<lambda>(b, i). (b, g b i)) ps)"
  proof (rule Cons.IH)
    fix b' i' assume "(b', i') \<in> set ps"
    then show "0 \<le> b' \<and> b' < int (length sts) \<and> member_get (sts ! nat b') i' = Inr (g b' i')"
      using Cons.prems [of b' i'] by simp
  qed
  show ?case using 1 2 p by (simp add: py_index_def)
qed

lemma apply_transforms_ok:
  "(\<And>b r. (b, r) \<in> set rs \<Longrightarrow> 0 \<le> b \<and> b < int (length ts))
   \<Longrightarrow> apply_transforms ts rs
       = Inr (map (\<lambda>(b, r). (b, case ts ! nat b of None \<Rightarrow> r | Some f \<Rightarrow> f r)) rs)"
proof (induction rs)
  case Nil
  then show ?case by simp
next
  case (Cons p rs)
  obtain b r where p: "p = (b, r)" by (cases p)
  have 1: "0 \<le> b \<and> b < int (length ts)"
    using Cons.prems [of b r] p by simp
  have 2: "apply_transforms ts rs
       = Inr (map (\<lambda>(b, r). (b, case ts ! nat b of None \<Rightarrow> r | Some f \<Rightarrow> f r)) rs)"
  proof (rule Cons.IH)
    fix b' r' assume "(b', r') \<in> set rs"
    then show "0 \<le> b' \<and> b' < int (length ts)"
      using Cons.prems [of b' r'] by simp
  qed
  show ?case using 1 2 p by (simp add: py_index_def)
qed

text \<open>
  C6. Let an ensemble be built from the members \<open>sts\<close> and the optional transforms
  \<open>tfs\<close>, and let \<^verbatim>\<open>get\<close> be called with parallel \<^verbatim>\<open>buffer_ids\<close> and \<^verbatim>\<open>index\<close>
  such that every id names a member and that member's \<^verbatim>\<open>get\<close> returns a record
  \<open>g b i\<close> at its index. Then \<^verbatim>\<open>get\<close> returns, in order, one pair for each position:
  the id, and the record with the transform of that member applied if there is one.
\<close>

theorem StorageEnsemble_get_routes:
  assumes wf: "StorageEnsemble_new sts tfs = Inr self"
    and ok: "\<forall>(b, i) \<in> set (zip (buffer_ids itm) (index itm)).
               0 \<le> b \<and> b < int (length sts) \<and> member_get (sts ! nat b) i = Inr (g b i)"
  shows "StorageEnsemble_get member_get self itm
         = Inr (map (\<lambda>(b, i).
                  (b, case tfs of
                        None \<Rightarrow> g b i
                      | Some ts \<Rightarrow> (case ts ! nat b of None \<Rightarrow> g b i | Some f \<Rightarrow> f (g b i))))
                (zip (buffer_ids itm) (index itm)))"
proof -
  let ?ps = "zip (buffer_ids itm) (index itm)"
  have self: "storages self = sts" "transforms self = tfs"
    using wf by (auto simp: StorageEnsemble_new_def split: option.splits if_splits)
  have res: "get_results member_get sts ?ps = Inr (map (\<lambda>(b, i). (b, g b i)) ?ps)"
    using ok by (intro get_results_ok) auto
  show ?thesis
  proof (cases tfs)
    case None
    then show ?thesis using res self by (simp add: StorageEnsemble_get_def)
  next
    case (Some ts)
    then have len: "length ts = length sts"
      using wf by (auto simp: StorageEnsemble_new_def split: if_splits)
    have "apply_transforms ts (map (\<lambda>(b, i). (b, g b i)) ?ps)
          = Inr (map (\<lambda>(b, r). (b, case ts ! nat b of None \<Rightarrow> r | Some f \<Rightarrow> f r))
                   (map (\<lambda>(b, i). (b, g b i)) ?ps))"
      using ok len by (intro apply_transforms_ok) auto
    then show ?thesis using res self Some
      by (auto simp: StorageEnsemble_get_def comp_def case_prod_unfold split: option.splits)
  qed
qed

text \<open>
  The routing of the specification: the members \<open>A\<close> (id 0) and \<open>B\<close> (id 1) are list
  storages, \<open>B\<close> has a transform that wraps its record in a list, and
  \<^verbatim>\<open>get({buffer_ids: [0, 1], index: [2, 3]})\<close> is \<^verbatim>\<open>[(0, A.get(2)), (1, [B.get(3)])]\<close>.
\<close>

theorem StorageEnsemble_get_routes_witness:
  "StorageEnsemble_get (ListStorage_get ListStorage_class)
      \<lparr>storages =
         [ListStorage_new 5 None\<lparr>storage := [VOther 10, VOther 11, VOther 12]\<rparr>,
          ListStorage_new 5 (Some CPU)
            \<lparr>storage := [VOther 20, VOther 21, VOther 22, VOther 23]\<rparr>],
       transforms = Some [None, Some (\<lambda>r. VList [r])]\<rparr>
      \<lparr>buffer_ids = [0, 1], index = [IInt 2, IInt 3]\<rparr>
   = Inr [(0, VOther 12), (1, VList [VOther 23])]"
proof -
  let ?A = "ListStorage_new 5 None\<lparr>storage := [VOther 10, VOther 11, VOther 12]\<rparr>"
  let ?B = "ListStorage_new 5 (Some CPU)
              \<lparr>storage := [VOther 20, VOther 21, VOther 22, VOther 23]\<rparr>"
  let ?tfs = "Some [None, Some (\<lambda>r. VList [r])]"
  let ?g = "\<lambda>b i. if b = (0::int) then VOther 12 else VOther 23"
  let ?itm = "\<lparr>buffer_ids = [0, 1], index = [IInt 2, IInt 3]\<rparr>"
  have wf: "StorageEnsemble_new [?A, ?B] ?tfs = Inr \<lparr>storages = [?A, ?B], transforms = ?tfs\<rparr>"
    by (simp add: StorageEnsemble_new_def)
  have ok: "\<forall>(b, i) \<in> set (zip (buffer_ids ?itm) (index ?itm)).
               0 \<le> b \<and> b < int (length [?A, ?B])
               \<and> ListStorage_get ListStorage_class ([?A, ?B] ! nat b) i = Inr (?g b i)"
    by (simp add: ListStorage_class_def ListStorage_get_item_def py_index_def ListStorage_new_def)
  show ?thesis
    using StorageEnsemble_get_routes [OF wf ok] by simp
qed

section \<open>Properties of the pre-allocated storages\<close>

subsection \<open>The capacity after the first write\<close>

text \<open>\<open>- (m div - d)\<close> is the least number of rows of \<open>d\<close> elements that hold \<open>m\<close>.\<close>

lemma ceil_div:
  fixes m d :: int
  assumes "0 < d"
  shows "m \<le> (- (m div (- d))) * d \<and> (- (m div (- d))) * d < m + d"
proof -
  have 1: "(- d) * (m div (- d)) + m mod (- d) = m" by (rule mult_div_mod_eq)
  have 2: "m mod (- d) \<le> 0" "- d < m mod (- d)" using assms by simp_all
  have 3: "(- (m div (- d))) * d = (- d) * (m div (- d))" by simp
  show ?thesis unfolding 3 using 1 2 by linarith
qed

text \<open>
  When \<open>ndim > 1\<close> and the record has rows that are not empty, the buffer gets
  \<open>ceil(max_size / row_size)\<close> entries along its first axis, and \<open>max_size\<close> becomes
  that number times the number of elements of the whole record. For a record whose
  shape is the row shape, this is the least multiple of the row size that is not below
  the old \<open>max_size\<close>.
\<close>

lemma max_size_along_dim0_rows:
  assumes "ndim self > 1" and "numel (py_take (ndim self - 1) data_shape) \<noteq> 0"
  shows "max_size_along_dim0 data_shape self
         = (Inr (- (max_size self div (- int (numel (py_take (ndim self - 1) data_shape)))),
                 data_shape),
            self\<lparr>max_size :=
                   (- (max_size self div (- int (numel (py_take (ndim self - 1) data_shape)))))
                    * int (numel data_shape)\<rparr>)"
  using assms by (simp add: max_size_along_dim0_def Let_def)

lemma max_size_rounded_up:
  assumes "ndim self > 1" and "int (length data_shape) = ndim self - 1"
    and "numel data_shape \<noteq> 0"
    and "max_size_along_dim0 data_shape self = (Inr (r, shp), self')"
  shows "max_size self' = r * int (numel data_shape)
         \<and> max_size self \<le> max_size self'
         \<and> max_size self' < max_size self + int (numel data_shape)"
proof -
  have take: "py_take (ndim self - 1) data_shape = data_shape"
    using assms(1,2) by (simp add: py_take_def)
  have d: "0 < int (numel data_shape)" using assms(3) by simp
  have r: "r = - (max_size self div (- int (numel data_shape)))"
    and m: "max_size self' = r * int (numel data_shape)"
    using assms(1,3,4) take by (auto simp: max_size_along_dim0_def Let_def)
  show ?thesis using ceil_div [OF d, of "max_size self"] r m by simp
qed

text \<open>The example of the specification: capacity 100, two axes, rows of 7.\<close>

lemma LazyTensorStorage_init_row_7:
  "LazyTensorStorage_init (Stack (replicate 7 (Elem ()))) (LazyTensorStorage_new 100 2 False)
   = (None, (LazyTensorStorage_new 100 2 False)
        \<lparr>max_size := 105,
         tstorage := Some \<lparr>bshape = [15, 7], rows = replicate 15 None\<rparr>,
         initialized := True\<rparr>)"
  by (simp add: LazyTensorStorage_init_def max_size_along_dim0_def LazyTensorStorage_new_def
      py_take_def numel_def set_len_def numeral_eq_Suc)

text \<open>
  C4. The first write of a storage with \<open>ndim > 1\<close> is to round \<open>max_size\<close> up to the
  nearest multiple of the row size. \<^verbatim>\<open>max_size_along_dim0\<close> multiplies the number of
  rows by the size of the whole record, not of its leading \<open>ndim - 1\<close> axes: with
  capacity 100, two axes and a tensor record of shape \<open>[7, 3]\<close> (row shape \<open>[7]\<close> and
  three features) the buffer has 15 rows of 7 slots, and \<open>max_size\<close> becomes 315 where
  105 is the nearest multiple of 7.
\<close>

theorem LazyTensorStorage_init_record_7_3:
  "LazyTensorStorage_init (Stack (replicate 7 (Stack (replicate 3 (Elem ())))))
      (LazyTensorStorage_new 100 2 False)
   = (None, (LazyTensorStorage_new 100 2 False)
        \<lparr>max_size := 315,
         tstorage := Some \<lparr>bshape = [15, 7, 3], rows = replicate 15 None\<rparr>,
         initialized := True\<rparr>)"
  by (simp add: LazyTensorStorage_init_def max_size_along_dim0_def LazyTensorStorage_new_def
      py_take_def numel_def set_len_def numeral_eq_Suc)

end
